theory Spec2Isabelle
  imports Main
begin

section \<open>The JavaScript platform, as far as the handlers use it\<close>

text \<open>
  The API is a set of Express handlers over a Prisma client. Every handler reads
  \<open>req.userId\<close> and \<open>req.userPerfil\<close> (set by \<open>authMiddleware\<close> from the verified
  token), \<open>req.params.id\<close> and the fields of \<open>req.body\<close>, talks to the store and
  answers with an HTTP status and a JSON body.

  Modelling decisions, all of them about the platform and not about the handlers:
  \<^item> a body field is a string or is absent (\<open>undefined\<close>), as the Swagger schemas of the
    controllers declare; a body is a map from field names to strings. A character of
    a \<open>string\<close> stands for one code unit of the JavaScript string;
  \<^item> a JavaScript number that holds an integer is an \<open>int\<close> and \<open>NaN\<close> is \<open>None\<close>
    (the numbers of a \<open>Date\<close> are integers, exact in a double as long as they stay
    below the 53 bits of its mantissa);
  \<^item> the local time zone of the server has a fixed offset \<open>LocalTZA\<close>;
  \<^item> the parser behind \<open>new Date(string)\<close> and \<open>bcrypt.hash\<close> are parameters
    (\<open>newDate\<close>, \<open>hash\<close>) of the model.
\<close>

type_synonym ident = string
type_synonym body = "string \<Rightarrow> string option"

text \<open>\<open>!v\<close> for a value that is a string or \<open>undefined\<close>.\<close>

definition falsy :: "string option \<Rightarrow> bool" where
  "falsy v = (case v of None \<Rightarrow> True | Some s \<Rightarrow> s = [])"

text \<open>The string behind a field that has passed the \<open>!v\<close> test.\<close>

definition strOf :: "string option \<Rightarrow> string" where
  "strOf v = (case v of None \<Rightarrow> [] | Some s \<Rightarrow> s)"

subsection \<open>\<open>String.prototype.split\<close> and \<open>parseInt\<close>\<close>

fun split_on :: "char \<Rightarrow> string \<Rightarrow> string list" where
  "split_on sep [] = [[]]"
| "split_on sep (c # cs) =
     (if c = sep then [] # split_on sep cs
      else (case split_on sep cs of
              [] \<Rightarrow> [[c]]
            | x # xs \<Rightarrow> (c # x) # xs))"

text \<open>Array destructuring \<open>[a, b] = arr\<close>: an index past the end gives \<open>undefined\<close>.\<close>

definition element :: "'a list \<Rightarrow> nat \<Rightarrow> 'a option" where
  "element xs i = (if i < length xs then Some (xs ! i) else None)"

definition isWhiteSpace :: "char \<Rightarrow> bool" where
  "isWhiteSpace c = ((of_char c :: nat) \<in> set [9, 10, 11, 12, 13, 32, 160])"

definition digitOf :: "char \<Rightarrow> nat option" where
  "digitOf c =
     (let n = (of_char c :: nat) in
      if 48 \<le> n \<and> n \<le> 57 then Some (n - 48)
      else if 97 \<le> n \<and> n \<le> 122 then Some (n - 87)
      else if 65 \<le> n \<and> n \<le> 90 then Some (n - 55)
      else None)"

definition isDigitIn :: "nat \<Rightarrow> char \<Rightarrow> bool" where
  "isDigitIn R c = (case digitOf c of None \<Rightarrow> False | Some d \<Rightarrow> d < R)"

definition digitsValue :: "nat \<Rightarrow> string \<Rightarrow> nat" where
  "digitsValue R Z =
     foldl (\<lambda>a c. a * R + (case digitOf c of None \<Rightarrow> 0 | Some d \<Rightarrow> d)) 0 Z"

text \<open>
  \<open>parseInt(string)\<close> with no radix: leading white space is dropped, a sign is read, a
  \<open>0x\<close> prefix switches to radix 16, the longest prefix of digits is the value, and
  no digit at all gives \<open>NaN\<close>.
\<close>

definition parseInt :: "string \<Rightarrow> int option" where
  "parseInt inputString =
     (let S = dropWhile isWhiteSpace inputString;
          neg = (case S of [] \<Rightarrow> False | c # _ \<Rightarrow> c = CHR ''-'');
          S1 = (case S of [] \<Rightarrow> S
                | c # r \<Rightarrow> if c = CHR ''+'' \<or> c = CHR ''-'' then r else S);
          hex = (take 2 S1 = ''0x'' \<or> take 2 S1 = ''0X'');
          R = (if hex then 16 else 10);
          S2 = (if hex then drop 2 S1 else S1);
          Z = takeWhile (isDigitIn R) S2
      in if Z = [] then None
         else Some ((if neg then - 1 else 1) * int (digitsValue R Z)))"

text \<open>\<open>parseInt(undefined)\<close> parses the string \<open>"undefined"\<close>.\<close>

definition parseIntU :: "string option \<Rightarrow> int option" where
  "parseIntU v = (case v of None \<Rightarrow> parseInt ''undefined'' | Some s \<Rightarrow> parseInt s)"

subsection \<open>\<open>Date\<close>\<close>

text \<open>
  A \<open>Date\<close> is its time value, the milliseconds since the epoch in UTC; the Invalid
  Date is \<open>None\<close>. The functions below are the abstract operations of ECMAScript with
  the same names.
\<close>

definition msPerDay :: int where "msPerDay = 86400000"
definition msPerHour :: int where "msPerHour = 3600000"
definition msPerMinute :: int where "msPerMinute = 60000"
definition msPerSecond :: int where "msPerSecond = 1000"

definition Day :: "int \<Rightarrow> int" where
  "Day t = t div msPerDay"





definition MakeTime :: "int \<Rightarrow> int \<Rightarrow> int \<Rightarrow> int \<Rightarrow> int" where
  "MakeTime h m s milli = h * msPerHour + m * msPerMinute + s * msPerSecond + milli"

definition MakeDate :: "int \<Rightarrow> int \<Rightarrow> int" where
  "MakeDate day time = day * msPerDay + time"

definition TimeClip :: "int \<Rightarrow> int option" where
  "TimeClip t = (if \<bar>t\<bar> > 8640000000000000 then None else Some t)"

record platform =
  newDate :: "string \<Rightarrow> int option"
  LocalTZA :: int
  hash :: "string \<Rightarrow> string"

definition LocalTime :: "platform \<Rightarrow> int \<Rightarrow> int" where
  "LocalTime pf t = t + LocalTZA pf"

definition UTC :: "platform \<Rightarrow> int \<Rightarrow> int" where
  "UTC pf t = t - LocalTZA pf"

text \<open>
  \<open>date.setHours(hour, min, 0, 0)\<close>: the day of the date in local time is kept, the
  time within the day is replaced; an Invalid Date or a \<open>NaN\<close> argument gives the
  Invalid Date.
\<close>

definition setHours :: "platform \<Rightarrow> int option \<Rightarrow> int option \<Rightarrow> int option \<Rightarrow> int option" where
  "setHours pf date hour mins =
     (case date of
        None \<Rightarrow> None
      | Some t \<Rightarrow>
          (case hour of
             None \<Rightarrow> None
           | Some h \<Rightarrow>
               (case mins of
                  None \<Rightarrow> None
                | Some m \<Rightarrow>
                    TimeClip (UTC pf (MakeDate (Day (LocalTime pf t)) (MakeTime h m 0 0))))))"

section \<open>The store\<close>

text \<open>
  Modelled from the spec: the Prisma schema (\<open>schema.prisma\<close>) is not among the
  sources. The rows below carry the columns the controllers read and write, without the
  bookkeeping timestamps of creation and last update. What the schema alone decides is
  taken from the data model of the specification: a booking is created in the status
  scheduled (\<open>AGENDADA\<close>, the first of the values \<open>updateConsulta\<close> accepts), the e-mail
  of a user and the value of a push token are unique, the active flags default to true,
  a patient or doctor reference is a reference to a user, and a push token is owned by
  a user. A write that gives a row a reference to no user is refused by the store: the
  client throws and the handler answers 500.

  A table is the list of its rows in insertion order, each with its primary key. The
  patient reference, the doctor reference and the free text are columns of
  appointments, exams and exam results alike, so the three row types extend one record.
\<close>

record usuario =
  nome :: string
  email :: string
  senhaHash :: string
  perfil :: string
  ativo :: bool

record vinculo =
  pacienteId :: ident
  medicoId :: ident
  detalhes :: "string option"

record consulta = vinculo +
  dia :: int
  hora :: string
  dataHora :: int
  status :: string

record exame = consulta +
  nomeExame :: string

record resultadoExame = vinculo +
  exameId :: ident
  arquivoUrl :: "string option"
  publicadoEm :: int

record pushToken =
  usuarioId :: ident
  token :: string
  plataforma :: string
  tokenAtivo :: bool

type_synonym 'v table = "(ident \<times> 'v) list"

record db =
  usuarios :: "usuario table"
  consultas :: "consulta table"
  exames :: "exame table"
  resultados :: "resultadoExame table"
  pushTokens :: "pushToken table"

text \<open>The client's operations. \<open>create\<close> and the \<open>Date\<close> arguments can throw.\<close>

definition findUnique :: "'v table \<Rightarrow> ident \<Rightarrow> 'v option" where
  "findUnique t k = map_of t k"

definition findFirst :: "(ident \<times> 'v \<Rightarrow> bool) \<Rightarrow> 'v table \<Rightarrow> (ident \<times> 'v) option" where
  "findFirst P t = find P t"

definition findMany :: "(ident \<times> 'v \<Rightarrow> bool) \<Rightarrow> 'v table \<Rightarrow> 'v table" where
  "findMany P t = filter P t"

text \<open>
  \<open>create\<close> appends a row under the key the store generates for it; a key that is
  already taken violates the primary key and the call throws (\<open>None\<close>).
\<close>

definition create :: "'v table \<Rightarrow> ident \<Rightarrow> 'v \<Rightarrow> 'v table option" where
  "create t k v = (if k \<in> set (map fst t) then None else Some (t @ [(k, v)]))"

definition update :: "'v table \<Rightarrow> ident \<Rightarrow> ('v \<Rightarrow> 'v) \<Rightarrow> 'v table" where
  "update t k f = map (\<lambda>(k', v). if k' = k then (k', f v) else (k', v)) t"

definition delete :: "'v table \<Rightarrow> ident \<Rightarrow> 'v table" where
  "delete t k = filter (\<lambda>(k', v). k' \<noteq> k) t"

section \<open>Requests and responses\<close>

record caller =
  userId :: ident
  userPerfil :: string

text \<open>
  \<open>res.status(n).json({ error: { code } })\<close> is \<open>Err n code\<close>; a success answer is
  \<open>Res n payload\<close>. The human-readable messages are left out.
\<close>

datatype 'a reply = Err nat string | Res nat 'a

text \<open>\<open>select: { id, nome, email }\<close> of a related user.\<close>

type_synonym resumo = "ident \<times> string \<times> string"

definition selectUsuario :: "db \<Rightarrow> ident \<Rightarrow> resumo option" where
  "selectUsuario s uid =
     (case findUnique (usuarios s) uid of
        None \<Rightarrow> None
      | Some u \<Rightarrow> Some (uid, nome u, email u))"

text \<open>A row with \<open>include: { paciente, medico }\<close>.\<close>

type_synonym 'r withUsers = "(ident \<times> 'r) \<times> resumo option \<times> resumo option"

definition includeUsers :: "db \<Rightarrow> ident \<times> 'a vinculo_scheme \<Rightarrow> 'a vinculo_scheme withUsers" where
  "includeUsers s r = (r, selectUsuario s (pacienteId (snd r)), selectUsuario s (medicoId (snd r)))"

section \<open>Appointments: \<open>consultaController.js\<close>\<close>

text \<open>
  Lines 93 to 95 of \<open>createConsulta\<close> (and 96 to 98 of \<open>createExame\<close>):
  \<open>const [horas, minutos] = hora.split(':'); const dataHora = new Date(dia);
  dataHora.setHours(parseInt(horas), parseInt(minutos), 0, 0)\<close>.
\<close>

definition combineDataHora :: "platform \<Rightarrow> string \<Rightarrow> string \<Rightarrow> int option" where
  "combineDataHora pf d h =
     (let parts = split_on CHR '':'' h;
          horas = element parts 0;
          minutos = element parts 1
      in setHours pf (newDate pf d) (parseIntU horas) (parseIntU minutos))"

text \<open>
  \<open>createConsulta\<close>. \<open>newId\<close> is the key the store gives the new row. The status
  column is not written by the handler; the store's default is \<open>AGENDADA\<close>. A throw
  of the client (an Invalid Date among the arguments, a key already taken) reaches the
  \<open>catch\<close> of the handler, which answers 500.
\<close>

definition createConsulta ::
  "platform \<Rightarrow> ident \<Rightarrow> db \<Rightarrow> caller \<Rightarrow> body \<Rightarrow> db \<times> consulta withUsers reply" where
  "createConsulta pf newId s req b =
     (if falsy (b ''pacienteId'') \<or> falsy (b ''medicoId'') \<or> falsy (b ''dia'') \<or> falsy (b ''hora'')
      then (s, Err 400 ''VALIDATION_ERROR'')
      else if userPerfil req = ''PACIENTE'' \<and> strOf (b ''pacienteId'') \<noteq> userId req
      then (s, Err 403 ''AUTH_FORBIDDEN'')
      else
        (case findUnique (usuarios s) (strOf (b ''medicoId'')) of
           None \<Rightarrow> (s, Err 400 ''VALIDATION_ERROR'')
         | Some medico \<Rightarrow>
             if perfil medico \<noteq> ''MEDICO'' then (s, Err 400 ''VALIDATION_ERROR'')
             else
               (case findUnique (usuarios s) (strOf (b ''pacienteId'')) of
                  None \<Rightarrow> (s, Err 400 ''VALIDATION_ERROR'')
                | Some paciente \<Rightarrow>
                    (case combineDataHora pf (strOf (b ''dia'')) (strOf (b ''hora'')) of
                       None \<Rightarrow> (s, Err 500 ''INTERNAL_SERVER_ERROR'')
                     | Some dh \<Rightarrow>
                         (case findFirst (\<lambda>(k, c). medicoId c = strOf (b ''medicoId'') \<and> dataHora c = dh)
                                 (consultas s) of
                            Some consultaExistente \<Rightarrow> (s, Err 409 ''SLOT_UNAVAILABLE'')
                          | None \<Rightarrow>
                              (case newDate pf (strOf (b ''dia'')) of
                                 None \<Rightarrow> (s, Err 500 ''INTERNAL_SERVER_ERROR'')
                               | Some d \<Rightarrow>
                                   (let row = \<lparr>pacienteId = strOf (b ''pacienteId''),
                                               medicoId = strOf (b ''medicoId''),
                                               detalhes = b ''detalhes'',
                                               dia = d,
                                               hora = strOf (b ''hora''),
                                               dataHora = dh,
                                               status = ''AGENDADA''\<rparr>
                                    in (case create (consultas s) newId row of
                                          None \<Rightarrow> (s, Err 500 ''INTERNAL_SERVER_ERROR'')
                                        | Some t \<Rightarrow>
                                            (s\<lparr>consultas := t\<rparr>,
                                             Res 201 (includeUsers s (newId, row)))))))))))"

text \<open>\<open>listConsultas\<close>: the \<open>where\<close> clause depends on the role, the order is by \<open>dataHora\<close>.\<close>

definition listConsultas :: "db \<Rightarrow> caller \<Rightarrow> db \<times> consulta withUsers list reply" where
  "listConsultas s req =
     (let whereClause =
            (if userPerfil req = ''PACIENTE'' then (\<lambda>(k, c). pacienteId c = userId req)
             else if userPerfil req = ''MEDICO'' then (\<lambda>(k, c). medicoId c = userId req)
             else (\<lambda>(k, c). True))
      in (s, Res 200 (map (includeUsers s)
                        (sort_key (\<lambda>(k, c). dataHora c) (findMany whereClause (consultas s))))))"

definition getConsulta :: "db \<Rightarrow> caller \<Rightarrow> ident \<Rightarrow> db \<times> consulta withUsers reply" where
  "getConsulta s req i =
     (case findUnique (consultas s) i of
        None \<Rightarrow> (s, Err 404 ''RESOURCE_NOT_FOUND'')
      | Some c \<Rightarrow>
          if userPerfil req = ''PACIENTE'' \<and> pacienteId c \<noteq> userId req
          then (s, Err 403 ''AUTH_FORBIDDEN'')
          else if userPerfil req = ''MEDICO'' \<and> medicoId c \<noteq> userId req
          then (s, Err 403 ''AUTH_FORBIDDEN'')
          else (s, Res 200 (includeUsers s (i, c))))"

definition statusValidos :: "string list" where
  "statusValidos = [''AGENDADA'', ''REALIZADA'', ''CANCELADA'', ''NAO_COMPARECEU'']"

text \<open>
  The \<open>data\<close> object of an update, as the function it applies to the row: \<open>status\<close> is
  written when the field is truthy, \<open>detalhes\<close> when it is not \<open>undefined\<close>.
\<close>

definition dadosAtualizacao :: "body \<Rightarrow> 'a consulta_scheme \<Rightarrow> 'a consulta_scheme" where
  "dadosAtualizacao b c =
     (let c1 = (if falsy (b ''status'') then c else c\<lparr>status := strOf (b ''status'')\<rparr>)
      in if b ''detalhes'' = None then c1 else c1\<lparr>detalhes := b ''detalhes''\<rparr>)"

definition updateConsulta :: "db \<Rightarrow> caller \<Rightarrow> ident \<Rightarrow> body \<Rightarrow> db \<times> consulta withUsers reply" where
  "updateConsulta s req i b =
     (case findUnique (consultas s) i of
        None \<Rightarrow> (s, Err 404 ''RESOURCE_NOT_FOUND'')
      | Some c \<Rightarrow>
          if userPerfil req = ''PACIENTE'' \<and> pacienteId c \<noteq> userId req
          then (s, Err 403 ''AUTH_FORBIDDEN'')
          else if userPerfil req = ''MEDICO'' \<and> medicoId c \<noteq> userId req
          then (s, Err 403 ''AUTH_FORBIDDEN'')
          else if \<not> falsy (b ''status'') \<and> strOf (b ''status'') \<notin> set statusValidos
          then (s, Err 400 ''VALIDATION_ERROR'')
          else (s\<lparr>consultas := update (consultas s) i (dadosAtualizacao b)\<rparr>,
                Res 200 (includeUsers s (i, dadosAtualizacao b c))))"

text \<open>\<open>deleteConsulta\<close> cancels: it writes the status and keeps the row.\<close>

definition deleteConsulta :: "db \<Rightarrow> caller \<Rightarrow> ident \<Rightarrow> db \<times> (ident \<times> consulta) reply" where
  "deleteConsulta s req i =
     (case findUnique (consultas s) i of
        None \<Rightarrow> (s, Err 404 ''RESOURCE_NOT_FOUND'')
      | Some c \<Rightarrow>
          if userPerfil req = ''PACIENTE'' \<and> pacienteId c \<noteq> userId req
          then (s, Err 403 ''AUTH_FORBIDDEN'')
          else (s\<lparr>consultas := update (consultas s) i (\<lambda>c. c\<lparr>status := ''CANCELADA''\<rparr>)\<rparr>,
                Res 200 (i, c\<lparr>status := ''CANCELADA''\<rparr>)))"

section \<open>Exams: \<open>exameController.js\<close>\<close>

definition createExame ::
  "platform \<Rightarrow> ident \<Rightarrow> db \<Rightarrow> caller \<Rightarrow> body \<Rightarrow> db \<times> exame withUsers reply" where
  "createExame pf newId s req b =
     (if falsy (b ''nome'') \<or> falsy (b ''pacienteId'') \<or> falsy (b ''medicoId'')
           \<or> falsy (b ''dia'') \<or> falsy (b ''hora'')
      then (s, Err 400 ''VALIDATION_ERROR'')
      else if userPerfil req = ''PACIENTE'' \<and> strOf (b ''pacienteId'') \<noteq> userId req
      then (s, Err 403 ''AUTH_FORBIDDEN'')
      else
        (case findUnique (usuarios s) (strOf (b ''medicoId'')) of
           None \<Rightarrow> (s, Err 400 ''VALIDATION_ERROR'')
         | Some medico \<Rightarrow>
             if perfil medico \<noteq> ''MEDICO'' then (s, Err 400 ''VALIDATION_ERROR'')
             else
               (case findUnique (usuarios s) (strOf (b ''pacienteId'')) of
                  None \<Rightarrow> (s, Err 400 ''VALIDATION_ERROR'')
                | Some paciente \<Rightarrow>
                    (case combineDataHora pf (strOf (b ''dia'')) (strOf (b ''hora'')) of
                       None \<Rightarrow> (s, Err 500 ''INTERNAL_SERVER_ERROR'')
                     | Some dh \<Rightarrow>
                         (case findFirst (\<lambda>(k, e). medicoId e = strOf (b ''medicoId'') \<and> dataHora e = dh)
                                 (exames s) of
                            Some exameExistente \<Rightarrow> (s, Err 409 ''SLOT_UNAVAILABLE'')
                          | None \<Rightarrow>
                              (case newDate pf (strOf (b ''dia'')) of
                                 None \<Rightarrow> (s, Err 500 ''INTERNAL_SERVER_ERROR'')
                               | Some d \<Rightarrow>
                                   (let row = \<lparr>pacienteId = strOf (b ''pacienteId''),
                                               medicoId = strOf (b ''medicoId''),
                                               detalhes = b ''detalhes'',
                                               dia = d,
                                               hora = strOf (b ''hora''),
                                               dataHora = dh,
                                               status = ''AGENDADA'',
                                               nomeExame = strOf (b ''nome'')\<rparr>
                                    in (case create (exames s) newId row of
                                          None \<Rightarrow> (s, Err 500 ''INTERNAL_SERVER_ERROR'')
                                        | Some t \<Rightarrow>
                                            (s\<lparr>exames := t\<rparr>,
                                             Res 201 (includeUsers s (newId, row)))))))))))"

definition listExames :: "db \<Rightarrow> caller \<Rightarrow> db \<times> exame withUsers list reply" where
  "listExames s req =
     (let whereClause =
            (if userPerfil req = ''PACIENTE'' then (\<lambda>(k, e). pacienteId e = userId req)
             else if userPerfil req = ''MEDICO'' then (\<lambda>(k, e). medicoId e = userId req)
             else (\<lambda>(k, e). True))
      in (s, Res 200 (map (includeUsers s)
                        (sort_key (\<lambda>(k, e). dataHora e) (findMany whereClause (exames s))))))"

text \<open>
  \<open>getExame\<close> answers with \<open>include: { paciente, medico, resultados: true }\<close>: the exam
  comes with every result row that references it.
\<close>

definition getExame ::
  "db \<Rightarrow> caller \<Rightarrow> ident \<Rightarrow> db \<times> (exame withUsers \<times> resultadoExame table) reply" where
  "getExame s req i =
     (case findUnique (exames s) i of
        None \<Rightarrow> (s, Err 404 ''RESOURCE_NOT_FOUND'')
      | Some e \<Rightarrow>
          if userPerfil req = ''PACIENTE'' \<and> pacienteId e \<noteq> userId req
          then (s, Err 403 ''AUTH_FORBIDDEN'')
          else if userPerfil req = ''MEDICO'' \<and> medicoId e \<noteq> userId req
          then (s, Err 403 ''AUTH_FORBIDDEN'')
          else (s, Res 200 (includeUsers s (i, e),
                            findMany (\<lambda>(k, r). exameId r = i) (resultados s))))"

definition updateExame :: "db \<Rightarrow> caller \<Rightarrow> ident \<Rightarrow> body \<Rightarrow> db \<times> exame withUsers reply" where
  "updateExame s req i b =
     (case findUnique (exames s) i of
        None \<Rightarrow> (s, Err 404 ''RESOURCE_NOT_FOUND'')
      | Some e \<Rightarrow>
          if userPerfil req = ''PACIENTE'' \<and> pacienteId e \<noteq> userId req
          then (s, Err 403 ''AUTH_FORBIDDEN'')
          else if userPerfil req = ''MEDICO'' \<and> medicoId e \<noteq> userId req
          then (s, Err 403 ''AUTH_FORBIDDEN'')
          else if \<not> falsy (b ''status'') \<and> strOf (b ''status'') \<notin> set statusValidos
          then (s, Err 400 ''VALIDATION_ERROR'')
          else (s\<lparr>exames := update (exames s) i (dadosAtualizacao b)\<rparr>,
                Res 200 (includeUsers s (i, dadosAtualizacao b e))))"

definition deleteExame :: "db \<Rightarrow> caller \<Rightarrow> ident \<Rightarrow> db \<times> (ident \<times> exame) reply" where
  "deleteExame s req i =
     (case findUnique (exames s) i of
        None \<Rightarrow> (s, Err 404 ''RESOURCE_NOT_FOUND'')
      | Some e \<Rightarrow>
          if userPerfil req = ''PACIENTE'' \<and> pacienteId e \<noteq> userId req
          then (s, Err 403 ''AUTH_FORBIDDEN'')
          else (s\<lparr>exames := update (exames s) i (\<lambda>e. e\<lparr>status := ''CANCELADA''\<rparr>)\<rparr>,
                Res 200 (i, e\<lparr>status := ''CANCELADA''\<rparr>)))"

section \<open>Exam results: \<open>resultadoController.js\<close>\<close>

text \<open>
  The related rows a result is answered with: \<open>exame: { id, nome, dia, hora }\<close>
  (\<open>{ id, nome }\<close> on create), \<open>paciente: { id, nome, email }\<close>, \<open>medico: { id, nome }\<close>.
\<close>

definition selectExame :: "db \<Rightarrow> ident \<Rightarrow> (ident \<times> string \<times> int \<times> string) option" where
  "selectExame s eid =
     (case findUnique (exames s) eid of
        None \<Rightarrow> None
      | Some e \<Rightarrow> Some (eid, nomeExame e, dia e, hora e))"

definition selectMedico :: "db \<Rightarrow> ident \<Rightarrow> (ident \<times> string) option" where
  "selectMedico s uid =
     (case findUnique (usuarios s) uid of
        None \<Rightarrow> None
      | Some u \<Rightarrow> Some (uid, nome u))"

type_synonym resultadoView =
  "(ident \<times> resultadoExame) \<times> (ident \<times> string \<times> int \<times> string) option
     \<times> resumo option \<times> (ident \<times> string) option"

definition includeResultado :: "db \<Rightarrow> ident \<times> resultadoExame \<Rightarrow> resultadoView" where
  "includeResultado s r =
     (r, selectExame s (exameId (snd r)), selectUsuario s (pacienteId (snd r)),
      selectMedico s (medicoId (snd r)))"

text \<open>The answer of a create carries \<open>exame: { id, nome }\<close> only.\<close>

definition selectExameNome :: "db \<Rightarrow> ident \<Rightarrow> (ident \<times> string) option" where
  "selectExameNome s eid =
     (case findUnique (exames s) eid of
        None \<Rightarrow> None
      | Some e \<Rightarrow> Some (eid, nomeExame e))"

type_synonym resultadoCriado =
  "(ident \<times> resultadoExame) \<times> (ident \<times> string) option
     \<times> resumo option \<times> (ident \<times> string) option"

definition includeCriado :: "db \<Rightarrow> ident \<times> resultadoExame \<Rightarrow> resultadoCriado" where
  "includeCriado s r =
     (r, selectExameNome s (exameId (snd r)), selectUsuario s (pacienteId (snd r)),
      selectMedico s (medicoId (snd r)))"

text \<open>
  \<open>createResultado\<close>. \<open>now\<close> is the clock behind the default of the publish
  timestamp. The handler looks the exam up and leaves the patient and the doctor to the
  store, whose foreign keys make \<open>create\<close> throw on a reference to no user; it does not
  compare the two references with those of the exam.
\<close>

definition createResultado ::
  "int \<Rightarrow> ident \<Rightarrow> db \<Rightarrow> caller \<Rightarrow> body \<Rightarrow> db \<times> resultadoCriado reply" where
  "createResultado now newId s req b =
     (if falsy (b ''exameId'') \<or> falsy (b ''pacienteId'') \<or> falsy (b ''medicoId'')
      then (s, Err 400 ''VALIDATION_ERROR'')
      else if userPerfil req \<notin> set [''MEDICO'', ''ADMIN'']
      then (s, Err 403 ''AUTH_FORBIDDEN'')
      else
        (case findUnique (exames s) (strOf (b ''exameId'')) of
           None \<Rightarrow> (s, Err 404 ''RESOURCE_NOT_FOUND'')
         | Some e \<Rightarrow>
             if findUnique (usuarios s) (strOf (b ''pacienteId'')) = None
                \<or> findUnique (usuarios s) (strOf (b ''medicoId'')) = None
             then (s, Err 500 ''INTERNAL_SERVER_ERROR'')
             else
               (let row = \<lparr>pacienteId = strOf (b ''pacienteId''),
                           medicoId = strOf (b ''medicoId''),
                           detalhes = b ''detalhes'',
                           exameId = strOf (b ''exameId''),
                           arquivoUrl = b ''arquivoUrl'',
                           publicadoEm = now\<rparr>
                in (case create (resultados s) newId row of
                      None \<Rightarrow> (s, Err 500 ''INTERNAL_SERVER_ERROR'')
                    | Some t \<Rightarrow>
                        (s\<lparr>resultados := t\<rparr>, Res 201 (includeCriado s (newId, row)))))))"

definition listResultados :: "db \<Rightarrow> caller \<Rightarrow> db \<times> resultadoView list reply" where
  "listResultados s req =
     (let whereClause =
            (if userPerfil req = ''PACIENTE'' then (\<lambda>(k, r). pacienteId r = userId req)
             else if userPerfil req = ''MEDICO'' then (\<lambda>(k, r). medicoId r = userId req)
             else (\<lambda>(k, r). True))
      in (s, Res 200 (map (includeResultado s)
                        (rev (sort_key (\<lambda>(k, r). publicadoEm r)
                                (findMany whereClause (resultados s)))))))"

definition getResultado :: "db \<Rightarrow> caller \<Rightarrow> ident \<Rightarrow> db \<times> resultadoView reply" where
  "getResultado s req i =
     (case findUnique (resultados s) i of
        None \<Rightarrow> (s, Err 404 ''RESOURCE_NOT_FOUND'')
      | Some r \<Rightarrow>
          if userPerfil req = ''PACIENTE'' \<and> pacienteId r \<noteq> userId req
          then (s, Err 403 ''AUTH_FORBIDDEN'')
          else if userPerfil req = ''MEDICO'' \<and> medicoId r \<noteq> userId req
          then (s, Err 403 ''AUTH_FORBIDDEN'')
          else (s, Res 200 (includeResultado s (i, r))))"

section \<open>Push tokens: \<open>pushTokenController.js\<close>\<close>

definition plataformasValidas :: "string list" where
  "plataformasValidas = [''ios'', ''android'', ''web'']"

text \<open>
  \<open>registerPushToken\<close>. The token value is a unique column: \<open>findUnique\<close> by token is
  the row that carries it, and \<open>update\<close> by token rewrites that row. A new row gets
  the store's default for the active flag. The handler does not look the caller up;
  \<open>update\<close> and \<open>create\<close> write the caller's identity as the owner reference, and the
  store refuses it when no user has that identity.
\<close>

definition registerPushToken ::
  "ident \<Rightarrow> db \<Rightarrow> caller \<Rightarrow> body \<Rightarrow> db \<times> (ident \<times> pushToken) reply" where
  "registerPushToken newId s req b =
     (if falsy (b ''token'') \<or> falsy (b ''plataforma'')
      then (s, Err 400 ''VALIDATION_ERROR'')
      else if strOf (b ''plataforma'') \<notin> set plataformasValidas
      then (s, Err 400 ''VALIDATION_ERROR'')
      else
        (case findFirst (\<lambda>(k, t). token t = strOf (b ''token'')) (pushTokens s) of
           Some (k, tokenExistente) \<Rightarrow>
             if findUnique (usuarios s) (userId req) = None
             then (s, Err 500 ''INTERNAL_SERVER_ERROR'')
             else
               (let data = (\<lambda>t. t\<lparr>usuarioId := userId req,
                                   plataforma := strOf (b ''plataforma''),
                                   tokenAtivo := True\<rparr>)
                in (s\<lparr>pushTokens :=
                         map (\<lambda>(k', t). if token t = strOf (b ''token'') then (k', data t)
                                       else (k', t))
                           (pushTokens s)\<rparr>,
                    Res 200 (k, data tokenExistente)))
         | None \<Rightarrow>
             if findUnique (usuarios s) (userId req) = None
             then (s, Err 500 ''INTERNAL_SERVER_ERROR'')
             else
               (let row = \<lparr>usuarioId = userId req,
                           token = strOf (b ''token''),
                           plataforma = strOf (b ''plataforma''),
                           tokenAtivo = True\<rparr>
                in (case create (pushTokens s) newId row of
                      None \<Rightarrow> (s, Err 500 ''INTERNAL_SERVER_ERROR'')
                    | Some t \<Rightarrow> (s\<lparr>pushTokens := t\<rparr>, Res 201 (newId, row))))))"

definition deletePushToken :: "db \<Rightarrow> caller \<Rightarrow> ident \<Rightarrow> db \<times> unit reply" where
  "deletePushToken s req i =
     (case findUnique (pushTokens s) i of
        None \<Rightarrow> (s, Err 404 ''RESOURCE_NOT_FOUND'')
      | Some pt \<Rightarrow>
          if usuarioId pt \<noteq> userId req
          then (s, Err 403 ''AUTH_FORBIDDEN'')
          else (s\<lparr>pushTokens := delete (pushTokens s) i\<rparr>, Res 200 ()))"

section \<open>Accounts: \<open>authController.js\<close> and \<open>userController.js\<close>\<close>

text \<open>
  \<open>register\<close>. The e-mail is a unique column, looked up with \<open>findUnique\<close>; the new
  account is a patient, active by the store's default. The answer selects the key,
  the name, the e-mail and the role.
\<close>

definition register ::
  "platform \<Rightarrow> ident \<Rightarrow> db \<Rightarrow> body \<Rightarrow> db \<times> (ident \<times> string \<times> string \<times> string) reply" where
  "register pf newId s b =
     (if falsy (b ''nome'') \<or> falsy (b ''email'') \<or> falsy (b ''senha'')
      then (s, Err 400 ''VALIDATION_ERROR'')
      else if length (strOf (b ''senha'')) < 8
      then (s, Err 400 ''VALIDATION_ERROR'')
      else
        (case findFirst (\<lambda>(k, u). email u = strOf (b ''email'')) (usuarios s) of
           Some existingUser \<Rightarrow> (s, Err 409 ''RESOURCE_CONFLICT'')
         | None \<Rightarrow>
             (let row = \<lparr>nome = strOf (b ''nome''),
                         email = strOf (b ''email''),
                         senhaHash = hash pf (strOf (b ''senha'')),
                         perfil = ''PACIENTE'',
                         ativo = True\<rparr>
              in (case create (usuarios s) newId row of
                    None \<Rightarrow> (s, Err 500 ''INTERNAL_SERVER_ERROR'')
                  | Some t \<Rightarrow>
                      (s\<lparr>usuarios := t\<rparr>,
                       Res 201 (newId, nome row, email row, perfil row))))))"

definition perfisValidos :: "string list" where
  "perfisValidos = [''ADMIN'', ''PACIENTE'', ''ATENDENTE'', ''MEDICO'']"

text \<open>
  The \<open>data\<close> object of \<open>updateUser\<close>. \<open>ativoField\<close> is the \<open>ativo\<close> field of the body
  when it is a JSON boolean; the handler ignores any other value
  (\<open>typeof ativo === 'boolean'\<close>).
\<close>

definition dadosUsuario :: "platform \<Rightarrow> body \<Rightarrow> bool option \<Rightarrow> usuario \<Rightarrow> usuario" where
  "dadosUsuario pf b ativoField u =
     (let u1 = (if falsy (b ''nome'') then u else u\<lparr>nome := strOf (b ''nome'')\<rparr>);
          u2 = (if falsy (b ''email'') then u1 else u1\<lparr>email := strOf (b ''email'')\<rparr>);
          u3 = (if falsy (b ''perfil'') then u2 else u2\<lparr>perfil := strOf (b ''perfil'')\<rparr>);
          u4 = (case ativoField of None \<Rightarrow> u3 | Some a \<Rightarrow> u3\<lparr>ativo := a\<rparr>)
      in if falsy (b ''senha'') then u4
         else u4\<lparr>senhaHash := hash pf (strOf (b ''senha''))\<rparr>)"

text \<open>
  \<open>updateUser\<close>. An e-mail that another account holds makes the store's \<open>update\<close>
  throw on the unique column.
\<close>

definition updateUser ::
  "platform \<Rightarrow> db \<Rightarrow> ident \<Rightarrow> body \<Rightarrow> bool option
     \<Rightarrow> db \<times> (ident \<times> string \<times> string \<times> string \<times> bool) reply" where
  "updateUser pf s i b ativoField =
     (case findUnique (usuarios s) i of
        None \<Rightarrow> (s, Err 404 ''RESOURCE_NOT_FOUND'')
      | Some usuarioExistente \<Rightarrow>
          if \<not> falsy (b ''perfil'') \<and> strOf (b ''perfil'') \<notin> set perfisValidos
          then (s, Err 400 ''VALIDATION_ERROR'')
          else if \<not> falsy (b ''senha'') \<and> length (strOf (b ''senha'')) < 8
          then (s, Err 400 ''VALIDATION_ERROR'')
          else if \<not> falsy (b ''email'')
                  \<and> list_ex (\<lambda>(k, u). k \<noteq> i \<and> email u = strOf (b ''email'')) (usuarios s)
          then (s, Err 500 ''INTERNAL_SERVER_ERROR'')
          else
            (let u = dadosUsuario pf b ativoField usuarioExistente
             in (s\<lparr>usuarios := update (usuarios s) i (dadosUsuario pf b ativoField)\<rparr>,
                 Res 200 (i, nome u, email u, perfil u, ativo u))))"

section \<open>Vocabulary of the properties\<close>

text \<open>
  The visibility rule that \<open>getConsulta\<close>, \<open>getExame\<close>, \<open>getResultado\<close> and the two
  update handlers apply to a row: a patient must be the row's patient, a doctor the
  row's doctor.
\<close>

definition mayAccess :: "caller \<Rightarrow> 'a vinculo_scheme \<Rightarrow> bool" where
  "mayAccess req r =
     ((userPerfil req = ''PACIENTE'' \<longrightarrow> pacienteId r = userId req)
      \<and> (userPerfil req = ''MEDICO'' \<longrightarrow> medicoId r = userId req))"

text \<open>A time of day of the form \<open>HH:MM\<close>: two decimal digits, a colon, two decimal digits.\<close>

definition isHHMM :: "string \<Rightarrow> bool" where
  "isHHMM h =
     (case h of
        [h1, h2, c, m1, m2] \<Rightarrow>
          isDigitIn 10 h1 \<and> isDigitIn 10 h2 \<and> c = CHR '':'' \<and> isDigitIn 10 m1 \<and> isDigitIn 10 m2
      | _ \<Rightarrow> False)"





text \<open>
  What an update that supplies only some fields leaves alone in a booking row: the
  patient, the doctor, the date, the time of day, the combined timestamp and the
  columns an exam adds; the status when the body carries none (or an empty one, which
  the handler treats as none); the free text when the body carries none.
\<close>

definition sameBooking :: "body \<Rightarrow> 'a consulta_scheme \<Rightarrow> 'a consulta_scheme \<Rightarrow> bool" where
  "sameBooking b c c' =
     (pacienteId c' = pacienteId c \<and> medicoId c' = medicoId c
      \<and> dia c' = dia c \<and> hora c' = hora c \<and> dataHora c' = dataHora c
      \<and> consulta.more c' = consulta.more c
      \<and> (falsy (b ''status'') \<longrightarrow> status c' = status c)
      \<and> (b ''detalhes'' = None \<longrightarrow> detalhes c' = detalhes c))"

text \<open>
  The checks of a booking create that come before the slot check: every required field
  is present, a patient books for themself, the doctor exists and is a doctor, the
  patient exists.
\<close>

definition bookingAdmitted :: "db \<Rightarrow> caller \<Rightarrow> body \<Rightarrow> bool" where
  "bookingAdmitted s req b =
     (\<not> falsy (b ''pacienteId'') \<and> \<not> falsy (b ''medicoId'')
      \<and> \<not> falsy (b ''dia'') \<and> \<not> falsy (b ''hora'')
      \<and> \<not> (userPerfil req = ''PACIENTE'' \<and> strOf (b ''pacienteId'') \<noteq> userId req)
      \<and> (case findUnique (usuarios s) (strOf (b ''medicoId'')) of
            None \<Rightarrow> False
          | Some medico \<Rightarrow> perfil medico = ''MEDICO'')
      \<and> findUnique (usuarios s) (strOf (b ''pacienteId'')) \<noteq> None)"

section \<open>A clinic to evaluate the handlers on\<close>

text \<open>
  A server three hours west of Greenwich whose \<open>Date\<close> reads the one date string the
  examples use: \<open>new Date('2024-01-01')\<close> is midnight UTC of that day.
\<close>

definition examplePlatform :: platform where
  "examplePlatform =
     \<lparr>newDate = (\<lambda>d. if d = ''2024-01-01'' then Some 1704067200000 else None),
      LocalTZA = - 10800000,
      hash = (\<lambda>pw. CHR ''#'' # pw)\<rparr>"

definition exampleUsuarios :: "usuario table" where
  "exampleUsuarios =
     [(''p1'', \<lparr>nome = ''Ana'', email = ''ana@clinic'', senhaHash = ''#anaana12'',
               perfil = ''PACIENTE'', ativo = True\<rparr>),
      (''p2'', \<lparr>nome = ''Bruno'', email = ''bruno@clinic'', senhaHash = ''#brunobr1'',
               perfil = ''PACIENTE'', ativo = True\<rparr>),
      (''d1'', \<lparr>nome = ''Carla'', email = ''carla@clinic'', senhaHash = ''#carlaca1'',
               perfil = ''MEDICO'', ativo = True\<rparr>),
      (''d2'', \<lparr>nome = ''Davi'', email = ''davi@clinic'', senhaHash = ''#davidav1'',
               perfil = ''MEDICO'', ativo = True\<rparr>),
      (''a1'', \<lparr>nome = ''Eva'', email = ''eva@clinic'', senhaHash = ''#evaevae1'',
               perfil = ''ADMIN'', ativo = True\<rparr>)]"

text \<open>
  Doctor \<open>d1\<close> has one appointment, canceled, and one exam, both of patient \<open>p1\<close> and
  both at 10:30 local time of the day \<open>new Date('2024-01-01')\<close> falls on.
\<close>

definition exampleConsulta :: consulta where
  "exampleConsulta =
     \<lparr>pacienteId = ''p1'', medicoId = ''d1'', detalhes = None,
      dia = 1704067200000, hora = ''10:30'', dataHora = 1704029400000,
      status = ''CANCELADA''\<rparr>"

definition exampleExame :: exame where
  "exampleExame =
     \<lparr>pacienteId = ''p1'', medicoId = ''d1'', detalhes = None,
      dia = 1704067200000, hora = ''10:30'', dataHora = 1704029400000,
      status = ''AGENDADA'', nomeExame = ''Hemograma''\<rparr>"

definition exampleDb :: db where
  "exampleDb =
     \<lparr>usuarios = exampleUsuarios,
      consultas = [(''c1'', exampleConsulta)],
      exames = [(''e1'', exampleExame)],
      resultados = [],
      pushTokens = [(''t1'', \<lparr>usuarioId = ''p1'', token = ''tok-abc'',
                              plataforma = ''ios'', tokenAtivo = True\<rparr>)]\<rparr>"

text \<open>The rows a booking of patient \<open>p2\<close> with doctor \<open>d1\<close> at 09:15 creates.\<close>

definition exampleNewConsulta :: consulta where
  "exampleNewConsulta =
     \<lparr>pacienteId = ''p2'', medicoId = ''d1'', detalhes = None,
      dia = 1704067200000, hora = ''09:15'', dataHora = 1704024900000,
      status = ''AGENDADA''\<rparr>"


text \<open>The clinic after that appointment has been booked under the key \<open>c2\<close>.\<close>

definition exampleDb2 :: db where
  "exampleDb2 = exampleDb\<lparr>consultas := [(''c1'', exampleConsulta), (''c2'', exampleNewConsulta)]\<rparr>"

text \<open>
  A result filed for the exam \<open>e1\<close> (of patient \<open>p1\<close> and doctor \<open>d1\<close>) under the
  references of patient \<open>p2\<close> and doctor \<open>d2\<close>, and the clinic that holds it.
\<close>

definition exampleResultado :: resultadoExame where
  "exampleResultado =
     \<lparr>pacienteId = ''p2'', medicoId = ''d2'', detalhes = Some ''laudo'',
      exameId = ''e1'', arquivoUrl = None, publicadoEm = 1704100000000\<rparr>"

definition exampleDb3 :: db where
  "exampleDb3 = exampleDb\<lparr>resultados := [(''r1'', exampleResultado)]\<rparr>"

definition asCaller :: "ident \<Rightarrow> string \<Rightarrow> caller" where
  "asCaller u p = \<lparr>userId = u, userPerfil = p\<rparr>"

text \<open>A booking body: patient, doctor, date, time of day, and the name an exam needs.\<close>

definition bookingBody :: "string \<Rightarrow> string \<Rightarrow> string \<Rightarrow> string \<Rightarrow> body" where
  "bookingBody p m d h =
     [''nome'' \<mapsto> ''Hemograma'', ''pacienteId'' \<mapsto> p, ''medicoId'' \<mapsto> m,
      ''dia'' \<mapsto> d, ''hora'' \<mapsto> h]"

section \<open>Facts about the store\<close>

lemma find_member: "x \<in> set xs \<Longrightarrow> P x \<Longrightarrow> \<exists>y. find P xs = Some y"
  by (induction xs) auto

lemma findFirst_member: "x \<in> set t \<Longrightarrow> P x \<Longrightarrow> \<exists>y. findFirst P t = Some y"
  unfolding findFirst_def by (rule find_member)

lemma findUnique_update:
  "findUnique (update t k f) j = (if j = k then map_option f (findUnique t k) else findUnique t j)"
  unfolding findUnique_def update_def by (induction t) auto

lemma keys_update: "map fst (update t k f) = map fst t"
  unfolding update_def by (induction t) auto


section \<open>Booking create: the order of the checks\<close>

lemma bookingAdmittedD:
  assumes "bookingAdmitted s req b"
  shows "\<not> falsy (b ''pacienteId'')" "\<not> falsy (b ''medicoId'')"
    "\<not> falsy (b ''dia'')" "\<not> falsy (b ''hora'')"
    "\<not> (userPerfil req = ''PACIENTE'' \<and> strOf (b ''pacienteId'') \<noteq> userId req)"
    "\<exists>medico. findUnique (usuarios s) (strOf (b ''medicoId'')) = Some medico
        \<and> perfil medico = ''MEDICO''"
    "\<exists>paciente. findUnique (usuarios s) (strOf (b ''pacienteId'')) = Some paciente"
  using assms unfolding bookingAdmitted_def by (simp_all split: option.splits)

text \<open>Past the first four checks, \<open>createConsulta\<close> is its tail.\<close>

lemma createConsulta_admitted:
  assumes adm: "bookingAdmitted s req b"
  shows "createConsulta pf newId s req b =
     (case combineDataHora pf (strOf (b ''dia'')) (strOf (b ''hora'')) of
        None \<Rightarrow> (s, Err 500 ''INTERNAL_SERVER_ERROR'')
      | Some dh \<Rightarrow>
          (case findFirst (\<lambda>(k, c). medicoId c = strOf (b ''medicoId'') \<and> dataHora c = dh)
                  (consultas s) of
             Some consultaExistente \<Rightarrow> (s, Err 409 ''SLOT_UNAVAILABLE'')
           | None \<Rightarrow>
               (case newDate pf (strOf (b ''dia'')) of
                  None \<Rightarrow> (s, Err 500 ''INTERNAL_SERVER_ERROR'')
                | Some d \<Rightarrow>
                    (let row = \<lparr>pacienteId = strOf (b ''pacienteId''),
                                medicoId = strOf (b ''medicoId''),
                                detalhes = b ''detalhes'',
                                dia = d,
                                hora = strOf (b ''hora''),
                                dataHora = dh,
                                status = ''AGENDADA''\<rparr>
                     in (case create (consultas s) newId row of
                           None \<Rightarrow> (s, Err 500 ''INTERNAL_SERVER_ERROR'')
                         | Some t \<Rightarrow>
                             (s\<lparr>consultas := t\<rparr>,
                              Res 201 (includeUsers s (newId, row))))))))"
proof -
  note f = bookingAdmittedD[OF adm]
  from f(6) obtain medico where
    m: "findUnique (usuarios s) (strOf (b ''medicoId'')) = Some medico" "perfil medico = ''MEDICO''"
    by blast
  from f(7) obtain paciente where
    p: "findUnique (usuarios s) (strOf (b ''pacienteId'')) = Some paciente"
    by blast
  from f(5) have g: "(userPerfil req = ''PACIENTE'' \<and> strOf (b ''pacienteId'') \<noteq> userId req) = False"
    by simp
  show ?thesis
    unfolding createConsulta_def by (simp add: f(1-4) g m p)
qed

lemma createExame_admitted:
  assumes adm: "bookingAdmitted s req b" and nm: "\<not> falsy (b ''nome'')"
  shows "createExame pf newId s req b =
     (case combineDataHora pf (strOf (b ''dia'')) (strOf (b ''hora'')) of
        None \<Rightarrow> (s, Err 500 ''INTERNAL_SERVER_ERROR'')
      | Some dh \<Rightarrow>
          (case findFirst (\<lambda>(k, e). medicoId e = strOf (b ''medicoId'') \<and> dataHora e = dh)
                  (exames s) of
             Some exameExistente \<Rightarrow> (s, Err 409 ''SLOT_UNAVAILABLE'')
           | None \<Rightarrow>
               (case newDate pf (strOf (b ''dia'')) of
                  None \<Rightarrow> (s, Err 500 ''INTERNAL_SERVER_ERROR'')
                | Some d \<Rightarrow>
                    (let row = \<lparr>pacienteId = strOf (b ''pacienteId''),
                                medicoId = strOf (b ''medicoId''),
                                detalhes = b ''detalhes'',
                                dia = d,
                                hora = strOf (b ''hora''),
                                dataHora = dh,
                                status = ''AGENDADA'',
                                nomeExame = strOf (b ''nome'')\<rparr>
                     in (case create (exames s) newId row of
                           None \<Rightarrow> (s, Err 500 ''INTERNAL_SERVER_ERROR'')
                         | Some t \<Rightarrow>
                             (s\<lparr>exames := t\<rparr>,
                              Res 201 (includeUsers s (newId, row))))))))"
proof -
  note f = bookingAdmittedD[OF adm]
  from f(6) obtain medico where
    m: "findUnique (usuarios s) (strOf (b ''medicoId'')) = Some medico" "perfil medico = ''MEDICO''"
    by blast
  from f(7) obtain paciente where
    p: "findUnique (usuarios s) (strOf (b ''pacienteId'')) = Some paciente"
    by blast
  from f(5) have g: "(userPerfil req = ''PACIENTE'' \<and> strOf (b ''pacienteId'') \<noteq> userId req) = False"
    by simp
  show ?thesis
    unfolding createExame_def by (simp add: nm f(1-4) g m p)
qed

lemma slot_taken_consulta:
  assumes "(k, c) \<in> set (consultas s)" "medicoId c = m" "dataHora c = t"
  shows "\<exists>y. findFirst (\<lambda>(k, c). medicoId c = m \<and> dataHora c = t) (consultas s) = Some y"
proof -
  have "(\<lambda>(k, c). medicoId c = m \<and> dataHora c = t) (k, c)"
    using assms by simp
  from findFirst_member[of "(k, c)" "consultas s"
         "\<lambda>(k, c). medicoId c = m \<and> dataHora c = t", OF assms(1) this]
  show ?thesis .
qed

lemma slot_taken_exame:
  assumes "(k, e) \<in> set (exames s)" "medicoId e = m" "dataHora e = t"
  shows "\<exists>y. findFirst (\<lambda>(k, e). medicoId e = m \<and> dataHora e = t) (exames s) = Some y"
proof -
  have "(\<lambda>(k, e). medicoId e = m \<and> dataHora e = t) (k, e)"
    using assms by simp
  from findFirst_member[of "(k, e)" "exames s"
         "\<lambda>(k, e). medicoId e = m \<and> dataHora e = t", OF assms(1) this]
  show ?thesis .
qed

section \<open>C1: a taken slot\<close>

text \<open>
  C1, as the code has it. A booking create that has passed the checks that come first
  (required fields, a patient books for themself, the doctor is a doctor, the patient
  exists) and whose combined timestamp is that of a row of the same doctor answers 409
  \<open>SLOT_UNAVAILABLE\<close> and leaves the store as it was. Nothing is asked of the status of
  the row found: a canceled one blocks the slot too. This holds for appointments and,
  with the name present, for exams.
\<close>

theorem C1_slot_unavailable:
  assumes adm: "bookingAdmitted s req b"
      and dh: "combineDataHora pf (strOf (b ''dia'')) (strOf (b ''hora'')) = Some t"
  shows "((k, c) \<in> set (consultas s) \<and> medicoId c = strOf (b ''medicoId'') \<and> dataHora c = t
            \<longrightarrow> createConsulta pf newId s req b = (s, Err 409 ''SLOT_UNAVAILABLE''))
       \<and> ((k', e) \<in> set (exames s) \<and> medicoId e = strOf (b ''medicoId'') \<and> dataHora e = t
              \<and> \<not> falsy (b ''nome'')
            \<longrightarrow> createExame pf newId s req b = (s, Err 409 ''SLOT_UNAVAILABLE''))"
proof (intro conjI impI)
  assume "(k, c) \<in> set (consultas s) \<and> medicoId c = strOf (b ''medicoId'') \<and> dataHora c = t"
  then obtain y where
    "findFirst (\<lambda>(k, c). medicoId c = strOf (b ''medicoId'') \<and> dataHora c = t) (consultas s) = Some y"
    using slot_taken_consulta by blast
  then show "createConsulta pf newId s req b = (s, Err 409 ''SLOT_UNAVAILABLE'')"
    using dh by (simp add: createConsulta_admitted[OF adm])
next
  assume a: "(k', e) \<in> set (exames s) \<and> medicoId e = strOf (b ''medicoId'') \<and> dataHora e = t
               \<and> \<not> falsy (b ''nome'')"
  then obtain y where
    "findFirst (\<lambda>(k, e). medicoId e = strOf (b ''medicoId'') \<and> dataHora e = t) (exames s) = Some y"
    using slot_taken_exame by blast
  then show "createExame pf newId s req b = (s, Err 409 ''SLOT_UNAVAILABLE'')"
    using dh a by (simp add: createExame_admitted[OF adm])
qed

text \<open>
  At the canceled appointment and at the exam of doctor \<open>d1\<close>, both creates of patient
  \<open>p2\<close> for the same time answer 409.
\<close>

theorem C1_slot_unavailable_witness:
  "bookingAdmitted exampleDb (asCaller ''p2'' ''PACIENTE'')
     (bookingBody ''p2'' ''d1'' ''2024-01-01'' ''10:30'')
   \<and> status exampleConsulta = ''CANCELADA''
   \<and> createConsulta examplePlatform ''c2'' exampleDb (asCaller ''p2'' ''PACIENTE'')
       (bookingBody ''p2'' ''d1'' ''2024-01-01'' ''10:30'')
     = (exampleDb, Err 409 ''SLOT_UNAVAILABLE'')
   \<and> createExame examplePlatform ''e2'' exampleDb (asCaller ''p2'' ''PACIENTE'')
       (bookingBody ''p2'' ''d1'' ''2024-01-01'' ''10:30'')
     = (exampleDb, Err 409 ''SLOT_UNAVAILABLE'')"
proof -
  let ?b = "bookingBody ''p2'' ''d1'' ''2024-01-01'' ''10:30''"
  have adm: "bookingAdmitted exampleDb (asCaller ''p2'' ''PACIENTE'') ?b"
    by code_simp
  have dh: "combineDataHora examplePlatform (strOf (?b ''dia'')) (strOf (?b ''hora''))
              = Some 1704029400000"
    by code_simp
  have c: "(''c1'', exampleConsulta) \<in> set (consultas exampleDb)
           \<and> medicoId exampleConsulta = strOf (?b ''medicoId'')
           \<and> dataHora exampleConsulta = 1704029400000"
    by (simp add: exampleDb_def exampleConsulta_def bookingBody_def strOf_def)
  have e: "(''e1'', exampleExame) \<in> set (exames exampleDb)
           \<and> medicoId exampleExame = strOf (?b ''medicoId'')
           \<and> dataHora exampleExame = 1704029400000 \<and> \<not> falsy (?b ''nome'')"
    by (simp add: exampleDb_def exampleExame_def bookingBody_def strOf_def falsy_def)
  have st: "status exampleConsulta = ''CANCELADA''"
    by (simp add: exampleConsulta_def)
  from C1_slot_unavailable[OF adm dh, of "''c1''" exampleConsulta "''c2''" "''e1''" exampleExame]
  have "createConsulta examplePlatform ''c2'' exampleDb (asCaller ''p2'' ''PACIENTE'') ?b
          = (exampleDb, Err 409 ''SLOT_UNAVAILABLE'')
        \<and> createExame examplePlatform ''c2'' exampleDb (asCaller ''p2'' ''PACIENTE'') ?b
          = (exampleDb, Err 409 ''SLOT_UNAVAILABLE'')"
    using c e by blast
  moreover
  from C1_slot_unavailable[OF adm dh, of "''c1''" exampleConsulta "''e2''" "''e1''" exampleExame]
  have "createExame examplePlatform ''e2'' exampleDb (asCaller ''p2'' ''PACIENTE'') ?b
          = (exampleDb, Err 409 ''SLOT_UNAVAILABLE'')"
    using e by blast
  ultimately show ?thesis
    using adm st by blast
qed

text \<open>
  C1 as it is worded fails where an earlier check answers first. The slot of doctor
  \<open>d1\<close> at 10:30 is taken; patient \<open>p2\<close> asking for it in the name of \<open>p1\<close> gets 403
  \<open>AUTH_FORBIDDEN\<close>, and an administrator asking for it for the unknown patient \<open>p9\<close>
  gets 400 \<open>VALIDATION_ERROR\<close>.
\<close>

theorem C1_slot_unavailable_counterexample:
  "combineDataHora examplePlatform ''2024-01-01'' ''10:30'' = Some (dataHora exampleConsulta)
   \<and> (''c1'', exampleConsulta) \<in> set (consultas exampleDb)
   \<and> medicoId exampleConsulta = ''d1''
   \<and> createConsulta examplePlatform ''c2'' exampleDb (asCaller ''p2'' ''PACIENTE'')
       (bookingBody ''p1'' ''d1'' ''2024-01-01'' ''10:30'')
     = (exampleDb, Err 403 ''AUTH_FORBIDDEN'')
   \<and> createConsulta examplePlatform ''c2'' exampleDb (asCaller ''a1'' ''ADMIN'')
       (bookingBody ''p9'' ''d1'' ''2024-01-01'' ''10:30'')
     = (exampleDb, Err 400 ''VALIDATION_ERROR'')"
  by code_simp

section \<open>Booking create: what a refusal and a success tell\<close>

text \<open>A request that fails one of the first four checks is answered 400 or 403.\<close>


lemma createConsulta_not_admitted:
  assumes na: "\<not> bookingAdmitted s req b"
  shows "createConsulta pf newId s req b = (s, Err 400 ''VALIDATION_ERROR'')
           \<or> createConsulta pf newId s req b = (s, Err 403 ''AUTH_FORBIDDEN'')"
proof (cases "falsy (b ''pacienteId'') \<or> falsy (b ''medicoId'') \<or> falsy (b ''dia'') \<or> falsy (b ''hora'')")
  case True
  then show ?thesis unfolding createConsulta_def by simp
next
  case present: False
  show ?thesis
  proof (cases "userPerfil req = ''PACIENTE'' \<and> strOf (b ''pacienteId'') \<noteq> userId req")
    case True
    with present show ?thesis unfolding createConsulta_def by simp
  next
    case self: False
    show ?thesis
    proof (cases "findUnique (usuarios s) (strOf (b ''medicoId''))")
      case None
      with present self show ?thesis unfolding createConsulta_def by simp
    next
      case (Some medico)
      show ?thesis
      proof (cases "perfil medico = ''MEDICO''")
        case False
        with present self Some show ?thesis unfolding createConsulta_def by simp
      next
        case True
        with na present self Some
        have "findUnique (usuarios s) (strOf (b ''pacienteId'')) = None"
          unfolding bookingAdmitted_def by simp
        with present self Some True show ?thesis unfolding createConsulta_def by simp
      qed
    qed
  qed
qed

lemma createExame_not_admitted:
  assumes na: "\<not> bookingAdmitted s req b \<or> falsy (b ''nome'')"
  shows "createExame pf newId s req b = (s, Err 400 ''VALIDATION_ERROR'')
           \<or> createExame pf newId s req b = (s, Err 403 ''AUTH_FORBIDDEN'')"
proof (cases "falsy (b ''nome'') \<or> falsy (b ''pacienteId'') \<or> falsy (b ''medicoId'')
                \<or> falsy (b ''dia'') \<or> falsy (b ''hora'')")
  case True
  then show ?thesis unfolding createExame_def by simp
next
  case present: False
  show ?thesis
  proof (cases "userPerfil req = ''PACIENTE'' \<and> strOf (b ''pacienteId'') \<noteq> userId req")
    case True
    with present show ?thesis unfolding createExame_def by simp
  next
    case self: False
    show ?thesis
    proof (cases "findUnique (usuarios s) (strOf (b ''medicoId''))")
      case None
      with present self show ?thesis unfolding createExame_def by simp
    next
      case (Some medico)
      show ?thesis
      proof (cases "perfil medico = ''MEDICO''")
        case False
        with present self Some show ?thesis unfolding createExame_def by simp
      next
        case True
        with na present self Some
        have "findUnique (usuarios s) (strOf (b ''pacienteId'')) = None"
          unfolding bookingAdmitted_def by simp
        with present self Some True show ?thesis unfolding createExame_def by simp
      qed
    qed
  qed
qed

lemma createConsulta_created:
  assumes ok: "createConsulta pf newId s req b = (s', Res n v)"
  shows "bookingAdmitted s req b
     \<and> (\<exists>dh d t. combineDataHora pf (strOf (b ''dia'')) (strOf (b ''hora'')) = Some dh
          \<and> newDate pf (strOf (b ''dia'')) = Some d
          \<and> create (consultas s) newId
               \<lparr>pacienteId = strOf (b ''pacienteId''), medicoId = strOf (b ''medicoId''),
                detalhes = b ''detalhes'', dia = d, hora = strOf (b ''hora''),
                dataHora = dh, status = ''AGENDADA''\<rparr> = Some t
          \<and> s' = s\<lparr>consultas := t\<rparr>
          \<and> n = 201
          \<and> v = includeUsers s
                 (newId, \<lparr>pacienteId = strOf (b ''pacienteId''), medicoId = strOf (b ''medicoId''),
                          detalhes = b ''detalhes'', dia = d, hora = strOf (b ''hora''),
                          dataHora = dh, status = ''AGENDADA''\<rparr>))"
proof -
  have adm: "bookingAdmitted s req b"
    using createConsulta_not_admitted[of s req b pf newId] ok by auto
  from ok show ?thesis
    unfolding createConsulta_admitted[OF adm]
    by (auto simp: adm Let_def split: option.splits)
qed

lemma createExame_created:
  assumes ok: "createExame pf newId s req b = (s', Res n v)"
  shows "bookingAdmitted s req b \<and> \<not> falsy (b ''nome'')
     \<and> (\<exists>dh d t. combineDataHora pf (strOf (b ''dia'')) (strOf (b ''hora'')) = Some dh
          \<and> newDate pf (strOf (b ''dia'')) = Some d
          \<and> create (exames s) newId
               \<lparr>pacienteId = strOf (b ''pacienteId''), medicoId = strOf (b ''medicoId''),
                detalhes = b ''detalhes'', dia = d, hora = strOf (b ''hora''),
                dataHora = dh, status = ''AGENDADA'', nomeExame = strOf (b ''nome'')\<rparr>
              = Some t
          \<and> s' = s\<lparr>exames := t\<rparr>
          \<and> n = 201
          \<and> v = includeUsers s
                 (newId, \<lparr>pacienteId = strOf (b ''pacienteId''), medicoId = strOf (b ''medicoId''),
                          detalhes = b ''detalhes'', dia = d, hora = strOf (b ''hora''),
                          dataHora = dh, status = ''AGENDADA'', nomeExame = strOf (b ''nome'')\<rparr>))"
proof -
  have adm: "bookingAdmitted s req b" and nm: "\<not> falsy (b ''nome'')"
    using createExame_not_admitted[of s req b pf newId] ok by auto
  from ok show ?thesis
    unfolding createExame_admitted[OF adm nm]
    by (auto simp: adm nm Let_def split: option.splits)
qed

section \<open>C3: a patient books for themself\<close>

text \<open>
  C3, as the code has it. A booking create whose required fields are all present
  (for an exam, the name too), sent by a caller of role \<open>PACIENTE\<close> with a patient
  reference that is not the caller's identity, answers 403 \<open>AUTH_FORBIDDEN\<close> and
  leaves the store as it was.
\<close>

theorem C3_patient_books_for_self:
  assumes "\<not> falsy (b ''pacienteId'')" "\<not> falsy (b ''medicoId'')"
      "\<not> falsy (b ''dia'')" "\<not> falsy (b ''hora'')"
      and "userPerfil req = ''PACIENTE''" "strOf (b ''pacienteId'') \<noteq> userId req"
  shows "createConsulta pf newId s req b = (s, Err 403 ''AUTH_FORBIDDEN'')
       \<and> (\<not> falsy (b ''nome'')
            \<longrightarrow> createExame pf newId s req b = (s, Err 403 ''AUTH_FORBIDDEN''))"
  unfolding createConsulta_def createExame_def by (simp add: assms)

theorem C3_patient_books_for_self_witness:
  "userPerfil (asCaller ''p2'' ''PACIENTE'') = ''PACIENTE''
   \<and> strOf (bookingBody ''p1'' ''d2'' ''2024-01-01'' ''09:00'' ''pacienteId'')
       \<noteq> userId (asCaller ''p2'' ''PACIENTE'')
   \<and> createConsulta examplePlatform ''c2'' exampleDb (asCaller ''p2'' ''PACIENTE'')
       (bookingBody ''p1'' ''d2'' ''2024-01-01'' ''09:00'')
     = (exampleDb, Err 403 ''AUTH_FORBIDDEN'')
   \<and> createExame examplePlatform ''e2'' exampleDb (asCaller ''p2'' ''PACIENTE'')
       (bookingBody ''p1'' ''d2'' ''2024-01-01'' ''09:00'')
     = (exampleDb, Err 403 ''AUTH_FORBIDDEN'')"
proof -
  let ?b = "bookingBody ''p1'' ''d2'' ''2024-01-01'' ''09:00''"
  let ?req = "asCaller ''p2'' ''PACIENTE''"
  have f: "\<not> falsy (?b ''pacienteId'')" "\<not> falsy (?b ''medicoId'')"
      "\<not> falsy (?b ''dia'')" "\<not> falsy (?b ''hora'')" "\<not> falsy (?b ''nome'')"
    by (simp_all add: bookingBody_def falsy_def)
  have r: "userPerfil ?req = ''PACIENTE''" "strOf (?b ''pacienteId'') \<noteq> userId ?req"
    by (simp_all add: bookingBody_def asCaller_def strOf_def)
  from C3_patient_books_for_self[OF f(1-4) r, of examplePlatform "''c2''" exampleDb]
       C3_patient_books_for_self[OF f(1-4) r, of examplePlatform "''e2''" exampleDb] f(5) r
  show ?thesis by blast
qed

text \<open>
  C3 as it is worded fails where a required field is missing: the presence check
  comes first. Patient \<open>p2\<close> asks for an appointment in the name of \<open>p1\<close> and gives no
  time of day; the answer is 400 \<open>VALIDATION_ERROR\<close>.
\<close>

theorem C3_patient_books_for_self_counterexample:
  "userPerfil (asCaller ''p2'' ''PACIENTE'') = ''PACIENTE''
   \<and> [''pacienteId'' \<mapsto> ''p1'', ''medicoId'' \<mapsto> ''d2'', ''dia'' \<mapsto> ''2024-01-01''] ''pacienteId''
       = Some ''p1''
   \<and> ''p1'' \<noteq> userId (asCaller ''p2'' ''PACIENTE'')
   \<and> createConsulta examplePlatform ''c2'' exampleDb (asCaller ''p2'' ''PACIENTE'')
       [''pacienteId'' \<mapsto> ''p1'', ''medicoId'' \<mapsto> ''d2'', ''dia'' \<mapsto> ''2024-01-01'']
     = (exampleDb, Err 400 ''VALIDATION_ERROR'')"
  by code_simp

section \<open>C10: the time of day is not validated\<close>

text \<open>
  C10. Whatever the time-of-day string of a booking create is, once the request has
  passed the first four checks the answer is never \<open>VALIDATION_ERROR\<close>: the string is
  split at the colons, the first two parts go through \<open>parseInt\<close> unguarded, and a
  row that is created carries the timestamp \<open>setHours\<close> makes of the two results.
  (When they make no valid date, the store refuses the Invalid Date and the answer
  is 500.)
\<close>

theorem C10_hora_not_validated:
  assumes adm: "bookingAdmitted s req b"
  shows "(\<forall>n. snd (createConsulta pf newId s req b) \<noteq> Err n ''VALIDATION_ERROR'')
       \<and> (\<forall>s' v. createConsulta pf newId s req b = (s', Res 201 v) \<longrightarrow>
             Some (dataHora (snd (fst v)))
               = setHours pf (newDate pf (strOf (b ''dia'')))
                   (parseIntU (element (split_on CHR '':'' (strOf (b ''hora''))) 0))
                   (parseIntU (element (split_on CHR '':'' (strOf (b ''hora''))) 1)))
       \<and> (\<not> falsy (b ''nome'') \<longrightarrow>
            (\<forall>n. snd (createExame pf newId s req b) \<noteq> Err n ''VALIDATION_ERROR'')
          \<and> (\<forall>s' v. createExame pf newId s req b = (s', Res 201 v) \<longrightarrow>
                Some (dataHora (snd (fst v)))
                  = setHours pf (newDate pf (strOf (b ''dia'')))
                      (parseIntU (element (split_on CHR '':'' (strOf (b ''hora''))) 0))
                      (parseIntU (element (split_on CHR '':'' (strOf (b ''hora''))) 1))))"
proof (intro conjI allI impI)
  fix n
  show "snd (createConsulta pf newId s req b) \<noteq> Err n ''VALIDATION_ERROR''"
    unfolding createConsulta_admitted[OF adm]
    by (simp add: Let_def split: option.splits)
next
  fix s' v
  assume "createConsulta pf newId s req b = (s', Res 201 v)"
  from createConsulta_created[OF this]
  show "Some (dataHora (snd (fst v)))
               = setHours pf (newDate pf (strOf (b ''dia'')))
                   (parseIntU (element (split_on CHR '':'' (strOf (b ''hora''))) 0))
                   (parseIntU (element (split_on CHR '':'' (strOf (b ''hora''))) 1))"
    by (auto simp: includeUsers_def combineDataHora_def Let_def)
next
  fix n
  assume nm: "\<not> falsy (b ''nome'')"
  show "snd (createExame pf newId s req b) \<noteq> Err n ''VALIDATION_ERROR''"
    unfolding createExame_admitted[OF adm nm]
    by (simp add: Let_def split: option.splits)
next
  fix s' v
  assume "createExame pf newId s req b = (s', Res 201 v)"
  from createExame_created[OF this]
  show "Some (dataHora (snd (fst v)))
               = setHours pf (newDate pf (strOf (b ''dia'')))
                   (parseIntU (element (split_on CHR '':'' (strOf (b ''hora''))) 0))
                   (parseIntU (element (split_on CHR '':'' (strOf (b ''hora''))) 1))"
    by (auto simp: includeUsers_def combineDataHora_def Let_def)
qed

text \<open>
  The time \<open>11:3x\<close> is not of the form \<open>HH:MM\<close>; the appointment is created at 11:03.
  The time \<open>abc\<close> gives 500, not a validation error.
\<close>

theorem C10_hora_not_validated_witness:
  "bookingAdmitted exampleDb (asCaller ''p2'' ''PACIENTE'')
      (bookingBody ''p2'' ''d1'' ''2024-01-01'' ''abc'')
   \<and> \<not> isHHMM ''abc'' \<and> \<not> isHHMM ''11:3x''
   \<and> snd (createConsulta examplePlatform ''c2'' exampleDb (asCaller ''p2'' ''PACIENTE'')
            (bookingBody ''p2'' ''d1'' ''2024-01-01'' ''abc'')) \<noteq> Err 400 ''VALIDATION_ERROR''
   \<and> snd (createExame examplePlatform ''e2'' exampleDb (asCaller ''p2'' ''PACIENTE'')
            (bookingBody ''p2'' ''d1'' ''2024-01-01'' ''abc'')) \<noteq> Err 400 ''VALIDATION_ERROR''
   \<and> snd (createConsulta examplePlatform ''c2'' exampleDb (asCaller ''p2'' ''PACIENTE'')
            (bookingBody ''p2'' ''d1'' ''2024-01-01'' ''abc'')) = Err 500 ''INTERNAL_SERVER_ERROR''
   \<and> snd (createConsulta examplePlatform ''c2'' exampleDb (asCaller ''p2'' ''PACIENTE'')
            (bookingBody ''p2'' ''d1'' ''2024-01-01'' ''11:3x''))
       = Res 201 ((''c2'', \<lparr>pacienteId = ''p2'', medicoId = ''d1'', detalhes = None,
                            dia = 1704067200000, hora = ''11:3x'', dataHora = 1704031380000,
                            status = ''AGENDADA''\<rparr>),
                  Some (''p2'', ''Bruno'', ''bruno@clinic''),
                  Some (''d1'', ''Carla'', ''carla@clinic''))"
proof -
  let ?b = "bookingBody ''p2'' ''d1'' ''2024-01-01'' ''abc''"
  let ?req = "asCaller ''p2'' ''PACIENTE''"
  have adm: "bookingAdmitted exampleDb ?req ?b"
    by code_simp
  have nm: "\<not> falsy (?b ''nome'')"
    by (simp add: bookingBody_def falsy_def)
  have form: "\<not> isHHMM ''abc''" "\<not> isHHMM ''11:3x''"
    by code_simp+
  have run: "snd (createConsulta examplePlatform ''c2'' exampleDb ?req ?b)
               = Err 500 ''INTERNAL_SERVER_ERROR''"
    by code_simp
  have made: "snd (createConsulta examplePlatform ''c2'' exampleDb ?req
                     (bookingBody ''p2'' ''d1'' ''2024-01-01'' ''11:3x''))
       = Res 201 ((''c2'', \<lparr>pacienteId = ''p2'', medicoId = ''d1'', detalhes = None,
                            dia = 1704067200000, hora = ''11:3x'', dataHora = 1704031380000,
                            status = ''AGENDADA''\<rparr>),
                  Some (''p2'', ''Bruno'', ''bruno@clinic''),
                  Some (''d1'', ''Carla'', ''carla@clinic''))"
    by code_simp
  from C10_hora_not_validated[OF adm, of examplePlatform "''c2''"]
  have c: "snd (createConsulta examplePlatform ''c2'' exampleDb ?req ?b)
             \<noteq> Err 400 ''VALIDATION_ERROR''"
    by blast
  from C10_hora_not_validated[OF adm, of examplePlatform "''e2''"] nm
  have e: "snd (createExame examplePlatform ''e2'' exampleDb ?req ?b)
             \<noteq> Err 400 ''VALIDATION_ERROR''"
    by blast
  from adm form c e run made show ?thesis
    by blast
qed

section \<open>A time of day of the form \<open>HH:MM\<close>\<close>















section \<open>C4: create, then fetch\<close>









section \<open>C5 and C6: cancelling\<close>

lemma deleteConsulta_ok:
  assumes f: "findUnique (consultas s) i = Some c"
      and a: "\<not> (userPerfil req = ''PACIENTE'' \<and> pacienteId c \<noteq> userId req)"
  shows "deleteConsulta s req i
           = (s\<lparr>consultas := update (consultas s) i (\<lambda>c. c\<lparr>status := ''CANCELADA''\<rparr>)\<rparr>,
              Res 200 (i, c\<lparr>status := ''CANCELADA''\<rparr>))"
  unfolding deleteConsulta_def using a by (simp add: f)

lemma deleteExame_ok:
  assumes f: "findUnique (exames s) i = Some e"
      and a: "\<not> (userPerfil req = ''PACIENTE'' \<and> pacienteId e \<noteq> userId req)"
  shows "deleteExame s req i
           = (s\<lparr>exames := update (exames s) i (\<lambda>e. e\<lparr>status := ''CANCELADA''\<rparr>)\<rparr>,
              Res 200 (i, e\<lparr>status := ''CANCELADA''\<rparr>))"
  unfolding deleteExame_def using a by (simp add: f)

lemma update_idem:
  assumes "\<And>v. f (f v) = f v"
  shows "update (update t k f) k f = update t k f"
  unfolding update_def by (induction t) (auto simp: assms)

text \<open>
  C5. For an existing booking and a caller the cancel handler admits (anyone but a
  patient who is not the booking's patient), the first cancel answers 200 with the row
  in status \<open>CANCELADA\<close> and stores it so; the second cancel, on the store the first
  one left, answers the same 200 and leaves that store unchanged.
\<close>

theorem C5_cancel_twice:
  "(findUnique (consultas s) i = Some c
      \<and> \<not> (userPerfil req = ''PACIENTE'' \<and> pacienteId c \<noteq> userId req) \<longrightarrow>
      (\<exists>s1. deleteConsulta s req i = (s1, Res 200 (i, c\<lparr>status := ''CANCELADA''\<rparr>))
           \<and> findUnique (consultas s1) i = Some (c\<lparr>status := ''CANCELADA''\<rparr>)
           \<and> deleteConsulta s1 req i = (s1, Res 200 (i, c\<lparr>status := ''CANCELADA''\<rparr>))))
   \<and> (findUnique (exames s) j = Some e
      \<and> \<not> (userPerfil req = ''PACIENTE'' \<and> pacienteId e \<noteq> userId req) \<longrightarrow>
      (\<exists>s1. deleteExame s req j = (s1, Res 200 (j, e\<lparr>status := ''CANCELADA''\<rparr>))
           \<and> findUnique (exames s1) j = Some (e\<lparr>status := ''CANCELADA''\<rparr>)
           \<and> deleteExame s1 req j = (s1, Res 200 (j, e\<lparr>status := ''CANCELADA''\<rparr>))))"
proof (intro conjI impI)
  assume h: "findUnique (consultas s) i = Some c
      \<and> \<not> (userPerfil req = ''PACIENTE'' \<and> pacienteId c \<noteq> userId req)"
  let ?s1 = "s\<lparr>consultas := update (consultas s) i (\<lambda>c. c\<lparr>status := ''CANCELADA''\<rparr>)\<rparr>"
  let ?c = "c\<lparr>status := ''CANCELADA''\<rparr>"
  from h have d1: "deleteConsulta s req i = (?s1, Res 200 (i, ?c))"
    using deleteConsulta_ok by blast
  from h have f1: "findUnique (consultas ?s1) i = Some ?c"
    by (simp add: findUnique_update)
  from h have a1: "\<not> (userPerfil req = ''PACIENTE'' \<and> pacienteId ?c \<noteq> userId req)"
    by simp
  have "deleteConsulta ?s1 req i = (?s1, Res 200 (i, ?c))"
    unfolding deleteConsulta_ok[OF f1 a1] by (simp add: update_idem)
  with d1 f1
  show "\<exists>s1. deleteConsulta s req i = (s1, Res 200 (i, ?c))
           \<and> findUnique (consultas s1) i = Some ?c
           \<and> deleteConsulta s1 req i = (s1, Res 200 (i, ?c))"
    by blast
next
  assume h: "findUnique (exames s) j = Some e
      \<and> \<not> (userPerfil req = ''PACIENTE'' \<and> pacienteId e \<noteq> userId req)"
  let ?s1 = "s\<lparr>exames := update (exames s) j (\<lambda>e. e\<lparr>status := ''CANCELADA''\<rparr>)\<rparr>"
  let ?e = "e\<lparr>status := ''CANCELADA''\<rparr>"
  from h have d1: "deleteExame s req j = (?s1, Res 200 (j, ?e))"
    using deleteExame_ok by blast
  from h have f1: "findUnique (exames ?s1) j = Some ?e"
    by (simp add: findUnique_update)
  from h have a1: "\<not> (userPerfil req = ''PACIENTE'' \<and> pacienteId ?e \<noteq> userId req)"
    by simp
  have "deleteExame ?s1 req j = (?s1, Res 200 (j, ?e))"
    unfolding deleteExame_ok[OF f1 a1] by (simp add: update_idem)
  with d1 f1
  show "\<exists>s1. deleteExame s req j = (s1, Res 200 (j, ?e))
           \<and> findUnique (exames s1) j = Some ?e
           \<and> deleteExame s1 req j = (s1, Res 200 (j, ?e))"
    by blast
qed

text \<open>
  Patient \<open>p2\<close> cancels their appointment \<open>c2\<close> twice, and the administrator cancels
  the exam \<open>e1\<close> twice.
\<close>

theorem C5_cancel_twice_witness:
  "findUnique (consultas exampleDb2) ''c2'' = Some exampleNewConsulta
   \<and> status exampleNewConsulta = ''AGENDADA''
   \<and> deleteConsulta exampleDb2 (asCaller ''p2'' ''PACIENTE'') ''c2''
       = (exampleDb2\<lparr>consultas := [(''c1'', exampleConsulta),
                                     (''c2'', exampleNewConsulta\<lparr>status := ''CANCELADA''\<rparr>)]\<rparr>,
          Res 200 (''c2'', exampleNewConsulta\<lparr>status := ''CANCELADA''\<rparr>))
   \<and> deleteConsulta
        (exampleDb2\<lparr>consultas := [(''c1'', exampleConsulta),
                                    (''c2'', exampleNewConsulta\<lparr>status := ''CANCELADA''\<rparr>)]\<rparr>)
        (asCaller ''p2'' ''PACIENTE'') ''c2''
       = (exampleDb2\<lparr>consultas := [(''c1'', exampleConsulta),
                                     (''c2'', exampleNewConsulta\<lparr>status := ''CANCELADA''\<rparr>)]\<rparr>,
          Res 200 (''c2'', exampleNewConsulta\<lparr>status := ''CANCELADA''\<rparr>))
   \<and> deleteExame exampleDb (asCaller ''a1'' ''ADMIN'') ''e1''
       = (exampleDb\<lparr>exames := [(''e1'', exampleExame\<lparr>status := ''CANCELADA''\<rparr>)]\<rparr>,
          Res 200 (''e1'', exampleExame\<lparr>status := ''CANCELADA''\<rparr>))
   \<and> deleteExame (exampleDb\<lparr>exames := [(''e1'', exampleExame\<lparr>status := ''CANCELADA''\<rparr>)]\<rparr>)
        (asCaller ''a1'' ''ADMIN'') ''e1''
       = (exampleDb\<lparr>exames := [(''e1'', exampleExame\<lparr>status := ''CANCELADA''\<rparr>)]\<rparr>,
          Res 200 (''e1'', exampleExame\<lparr>status := ''CANCELADA''\<rparr>))"
proof -
  let ?p = "asCaller ''p2'' ''PACIENTE''"
  let ?a = "asCaller ''a1'' ''ADMIN''"
  let ?c = "exampleNewConsulta\<lparr>status := ''CANCELADA''\<rparr>"
  let ?e = "exampleExame\<lparr>status := ''CANCELADA''\<rparr>"
  let ?s1 = "exampleDb2\<lparr>consultas := [(''c1'', exampleConsulta), (''c2'', ?c)]\<rparr>"
  let ?t1 = "exampleDb\<lparr>exames := [(''e1'', ?e)]\<rparr>"
  have fc: "findUnique (consultas exampleDb2) ''c2'' = Some exampleNewConsulta"
    by code_simp
  have ac: "\<not> (userPerfil ?p = ''PACIENTE'' \<and> pacienteId exampleNewConsulta \<noteq> userId ?p)"
    by code_simp
  have fe: "findUnique (exames exampleDb) ''e1'' = Some exampleExame"
    by code_simp
  have ae: "\<not> (userPerfil ?a = ''PACIENTE'' \<and> pacienteId exampleExame \<noteq> userId ?a)"
    by code_simp
  have st: "status exampleNewConsulta = ''AGENDADA''"
    by (simp add: exampleNewConsulta_def)
  have c1: "deleteConsulta exampleDb2 ?p ''c2'' = (?s1, Res 200 (''c2'', ?c))"
    by code_simp
  have e1: "deleteExame exampleDb ?a ''e1'' = (?t1, Res 200 (''e1'', ?e))"
    by code_simp
  from C5_cancel_twice[of exampleDb2 "''c2''" exampleNewConsulta ?p] fc ac
  obtain s1 where "deleteConsulta exampleDb2 ?p ''c2'' = (s1, Res 200 (''c2'', ?c))"
    and "deleteConsulta s1 ?p ''c2'' = (s1, Res 200 (''c2'', ?c))"
    by blast
  with c1 have c2: "deleteConsulta ?s1 ?p ''c2'' = (?s1, Res 200 (''c2'', ?c))"
    by simp
  from C5_cancel_twice[where s = exampleDb and req = ?a and j = "''e1''" and e = exampleExame] fe ae
  obtain t1 where "deleteExame exampleDb ?a ''e1'' = (t1, Res 200 (''e1'', ?e))"
    and "deleteExame t1 ?a ''e1'' = (t1, Res 200 (''e1'', ?e))"
    by blast
  with e1 have e2: "deleteExame ?t1 ?a ''e1'' = (?t1, Res 200 (''e1'', ?e))"
    by simp
  from fc st c1 c2 e1 e2 show ?thesis
    by blast
qed

text \<open>
  C6. The cancel of an appointment answers 403 exactly when the appointment exists and
  the caller is a patient other than its patient. Any other caller of an existing
  appointment, a doctor who is not its doctor included, gets 200: the row is kept under
  its key, with the status \<open>CANCELADA\<close>, and the table keeps its keys.
\<close>

theorem C6_cancel_permission:
  "(snd (deleteConsulta s req i) = Err 403 ''AUTH_FORBIDDEN''
      \<longleftrightarrow> (\<exists>c. findUnique (consultas s) i = Some c
               \<and> userPerfil req = ''PACIENTE'' \<and> pacienteId c \<noteq> userId req))
   \<and> (findUnique (consultas s) i = Some c
        \<and> \<not> (userPerfil req = ''PACIENTE'' \<and> pacienteId c \<noteq> userId req) \<longrightarrow>
        (\<exists>s1. deleteConsulta s req i = (s1, Res 200 (i, c\<lparr>status := ''CANCELADA''\<rparr>))
             \<and> findUnique (consultas s1) i = Some (c\<lparr>status := ''CANCELADA''\<rparr>)
             \<and> map fst (consultas s1) = map fst (consultas s)))
   \<and> (findUnique (consultas s) i = Some c
        \<and> userPerfil req = ''MEDICO'' \<and> medicoId c \<noteq> userId req \<longrightarrow>
        snd (deleteConsulta s req i) = Res 200 (i, c\<lparr>status := ''CANCELADA''\<rparr>))"
proof (intro conjI impI)
  show "snd (deleteConsulta s req i) = Err 403 ''AUTH_FORBIDDEN''
      \<longleftrightarrow> (\<exists>c. findUnique (consultas s) i = Some c
               \<and> userPerfil req = ''PACIENTE'' \<and> pacienteId c \<noteq> userId req)"
    unfolding deleteConsulta_def by (simp split: option.splits)
next
  assume h: "findUnique (consultas s) i = Some c
        \<and> \<not> (userPerfil req = ''PACIENTE'' \<and> pacienteId c \<noteq> userId req)"
  let ?s1 = "s\<lparr>consultas := update (consultas s) i (\<lambda>c. c\<lparr>status := ''CANCELADA''\<rparr>)\<rparr>"
  from h have "deleteConsulta s req i = (?s1, Res 200 (i, c\<lparr>status := ''CANCELADA''\<rparr>))"
    using deleteConsulta_ok by blast
  moreover from h have "findUnique (consultas ?s1) i = Some (c\<lparr>status := ''CANCELADA''\<rparr>)"
    by (simp add: findUnique_update)
  moreover have "map fst (consultas ?s1) = map fst (consultas s)"
    by (simp add: keys_update)
  ultimately
  show "\<exists>s1. deleteConsulta s req i = (s1, Res 200 (i, c\<lparr>status := ''CANCELADA''\<rparr>))
             \<and> findUnique (consultas s1) i = Some (c\<lparr>status := ''CANCELADA''\<rparr>)
             \<and> map fst (consultas s1) = map fst (consultas s)"
    by blast
next
  assume h: "findUnique (consultas s) i = Some c
        \<and> userPerfil req = ''MEDICO'' \<and> medicoId c \<noteq> userId req"
  then have "\<not> (userPerfil req = ''PACIENTE'' \<and> pacienteId c \<noteq> userId req)"
    by simp
  with h show "snd (deleteConsulta s req i) = Res 200 (i, c\<lparr>status := ''CANCELADA''\<rparr>)"
    using deleteConsulta_ok[of s i c req] by simp
qed

text \<open>
  Doctor \<open>d2\<close> cancels the appointment \<open>c2\<close> of doctor \<open>d1\<close>; patient \<open>p1\<close> may not
  cancel it, it is the appointment of \<open>p2\<close>.
\<close>

theorem C6_cancel_permission_witness:
  "findUnique (consultas exampleDb2) ''c2'' = Some exampleNewConsulta
   \<and> medicoId exampleNewConsulta \<noteq> userId (asCaller ''d2'' ''MEDICO'')
   \<and> snd (deleteConsulta exampleDb2 (asCaller ''d2'' ''MEDICO'') ''c2'')
       = Res 200 (''c2'', exampleNewConsulta\<lparr>status := ''CANCELADA''\<rparr>)
   \<and> map fst (consultas (fst (deleteConsulta exampleDb2 (asCaller ''d2'' ''MEDICO'') ''c2'')))
       = [''c1'', ''c2'']
   \<and> snd (deleteConsulta exampleDb2 (asCaller ''p1'' ''PACIENTE'') ''c2'')
       = Err 403 ''AUTH_FORBIDDEN''"
proof -
  let ?d = "asCaller ''d2'' ''MEDICO''"
  let ?p = "asCaller ''p1'' ''PACIENTE''"
  have f: "findUnique (consultas exampleDb2) ''c2'' = Some exampleNewConsulta"
    by code_simp
  have m: "userPerfil ?d = ''MEDICO''" "medicoId exampleNewConsulta \<noteq> userId ?d"
    by code_simp+
  have p: "userPerfil ?p = ''PACIENTE''" "pacienteId exampleNewConsulta \<noteq> userId ?p"
    by code_simp+
  have k: "map fst (consultas (fst (deleteConsulta exampleDb2 ?d ''c2''))) = [''c1'', ''c2'']"
    by code_simp
  from C6_cancel_permission[of exampleDb2 ?d "''c2''" exampleNewConsulta] f m
  have a: "snd (deleteConsulta exampleDb2 ?d ''c2'')
             = Res 200 (''c2'', exampleNewConsulta\<lparr>status := ''CANCELADA''\<rparr>)"
    by blast
  from C6_cancel_permission[of exampleDb2 ?p "''c2''"] f p
  have b: "snd (deleteConsulta exampleDb2 ?p ''c2'') = Err 403 ''AUTH_FORBIDDEN''"
    by blast
  from f m(2) a k b show ?thesis
    by blast
qed

section \<open>C9: what an update leaves alone\<close>

lemma dadosAtualizacao_frame:
  "pacienteId (dadosAtualizacao b c) = pacienteId c"
  "medicoId (dadosAtualizacao b c) = medicoId c"
  "dia (dadosAtualizacao b c) = dia c"
  "hora (dadosAtualizacao b c) = hora c"
  "dataHora (dadosAtualizacao b c) = dataHora c"
  "consulta.more (dadosAtualizacao b c) = consulta.more c"
  "falsy (b ''status'') \<Longrightarrow> status (dadosAtualizacao b c) = status c"
  "b ''detalhes'' = None \<Longrightarrow> detalhes (dadosAtualizacao b c) = detalhes c"
  unfolding dadosAtualizacao_def Let_def by simp_all

lemma updateConsulta_store:
  "fst (updateConsulta s req i b) = s
   \<or> fst (updateConsulta s req i b) = s\<lparr>consultas := update (consultas s) i (dadosAtualizacao b)\<rparr>"
  unfolding updateConsulta_def by (simp split: option.splits)

lemma updateExame_store:
  "fst (updateExame s req i b) = s
   \<or> fst (updateExame s req i b) = s\<lparr>exames := update (exames s) i (dadosAtualizacao b)\<rparr>"
  unfolding updateExame_def by (simp split: option.splits)

lemma sameBooking_refl: "sameBooking b c c"
  unfolding sameBooking_def by simp

lemma sameBooking_dados: "sameBooking b c (dadosAtualizacao b c)"
  unfolding sameBooking_def by (simp add: dadosAtualizacao_frame)

text \<open>
  C9. Whatever the answer of a booking update is, every row of the table is still there
  under its key afterwards; a row under another key is untouched, and in the row under
  the key of the request the patient, the doctor, the date, the time of day and the
  combined timestamp are as before, the status is as before when the body supplies
  none, and the free text is as before when the body supplies none. The other tables
  are as before.
\<close>

theorem C9_update_frame:
  "(\<forall>j c. findUnique (consultas s) j = Some c \<longrightarrow>
       (\<exists>c'. findUnique (consultas (fst (updateConsulta s req i b))) j = Some c'
             \<and> sameBooking b c c' \<and> (j \<noteq> i \<longrightarrow> c' = c)))
   \<and> (\<forall>j e. findUnique (exames s) j = Some e \<longrightarrow>
       (\<exists>e'. findUnique (exames (fst (updateExame s req i b))) j = Some e'
             \<and> sameBooking b e e' \<and> (j \<noteq> i \<longrightarrow> e' = e)))
   \<and> usuarios (fst (updateConsulta s req i b)) = usuarios s
   \<and> exames (fst (updateConsulta s req i b)) = exames s
   \<and> usuarios (fst (updateExame s req i b)) = usuarios s
   \<and> consultas (fst (updateExame s req i b)) = consultas s"
proof (intro conjI allI impI)
  show "usuarios (fst (updateConsulta s req i b)) = usuarios s"
    "exames (fst (updateConsulta s req i b)) = exames s"
    using updateConsulta_store[of s req i b] by auto
  show "usuarios (fst (updateExame s req i b)) = usuarios s"
    "consultas (fst (updateExame s req i b)) = consultas s"
    using updateExame_store[of s req i b] by auto
next
  fix j c
  assume f: "findUnique (consultas s) j = Some c"
  from updateConsulta_store[of s req i b]
  show "\<exists>c'. findUnique (consultas (fst (updateConsulta s req i b))) j = Some c'
             \<and> sameBooking b c c' \<and> (j \<noteq> i \<longrightarrow> c' = c)"
  proof
    assume "fst (updateConsulta s req i b) = s"
    with f show ?thesis by (simp add: sameBooking_refl)
  next
    assume "fst (updateConsulta s req i b)
              = s\<lparr>consultas := update (consultas s) i (dadosAtualizacao b)\<rparr>"
    with f show ?thesis
      by (auto simp: findUnique_update sameBooking_refl sameBooking_dados)
  qed
next
  fix j e
  assume f: "findUnique (exames s) j = Some e"
  from updateExame_store[of s req i b]
  show "\<exists>e'. findUnique (exames (fst (updateExame s req i b))) j = Some e'
             \<and> sameBooking b e e' \<and> (j \<noteq> i \<longrightarrow> e' = e)"
  proof
    assume "fst (updateExame s req i b) = s"
    with f show ?thesis by (simp add: sameBooking_refl)
  next
    assume "fst (updateExame s req i b)
              = s\<lparr>exames := update (exames s) i (dadosAtualizacao b)\<rparr>"
    with f show ?thesis
      by (auto simp: findUnique_update sameBooking_refl sameBooking_dados)
  qed
qed

text \<open>
  Doctor \<open>d1\<close> rewrites the free text of the appointment \<open>c2\<close> and supplies no status;
  the administrator sets the status of the exam \<open>e1\<close> and supplies no free text.
\<close>

theorem C9_update_frame_witness:
  "findUnique (consultas exampleDb2) ''c2'' = Some exampleNewConsulta
   \<and> updateConsulta exampleDb2 (asCaller ''d1'' ''MEDICO'') ''c2'' [''detalhes'' \<mapsto> ''retorno'']
       = (exampleDb2\<lparr>consultas :=
             [(''c1'', exampleConsulta),
              (''c2'', exampleNewConsulta\<lparr>detalhes := Some ''retorno''\<rparr>)]\<rparr>,
          Res 200 ((''c2'', exampleNewConsulta\<lparr>detalhes := Some ''retorno''\<rparr>),
                   Some (''p2'', ''Bruno'', ''bruno@clinic''),
                   Some (''d1'', ''Carla'', ''carla@clinic'')))
   \<and> sameBooking [''detalhes'' \<mapsto> ''retorno''] exampleNewConsulta
        (exampleNewConsulta\<lparr>detalhes := Some ''retorno''\<rparr>)
   \<and> status (exampleNewConsulta\<lparr>detalhes := Some ''retorno''\<rparr>) = status exampleNewConsulta
   \<and> findUnique (exames (fst (updateExame exampleDb (asCaller ''a1'' ''ADMIN'') ''e1''
                                  [''status'' \<mapsto> ''REALIZADA'']))) ''e1''
       = Some (exampleExame\<lparr>status := ''REALIZADA''\<rparr>)
   \<and> sameBooking [''status'' \<mapsto> ''REALIZADA''] exampleExame
        (exampleExame\<lparr>status := ''REALIZADA''\<rparr>)"
proof -
  let ?d = "asCaller ''d1'' ''MEDICO''"
  let ?a = "asCaller ''a1'' ''ADMIN''"
  let ?b = "[''detalhes'' \<mapsto> ''retorno'']"
  let ?b' = "[''status'' \<mapsto> ''REALIZADA'']"
  let ?c' = "exampleNewConsulta\<lparr>detalhes := Some ''retorno''\<rparr>"
  let ?e' = "exampleExame\<lparr>status := ''REALIZADA''\<rparr>"
  have fc: "findUnique (consultas exampleDb2) ''c2'' = Some exampleNewConsulta"
    by code_simp
  have fe: "findUnique (exames exampleDb) ''e1'' = Some exampleExame"
    by code_simp
  have uc: "updateConsulta exampleDb2 ?d ''c2'' ?b
       = (exampleDb2\<lparr>consultas := [(''c1'', exampleConsulta), (''c2'', ?c')]\<rparr>,
          Res 200 ((''c2'', ?c'),
                   Some (''p2'', ''Bruno'', ''bruno@clinic''),
                   Some (''d1'', ''Carla'', ''carla@clinic'')))"
    by code_simp
  then have gc: "findUnique (consultas (fst (updateConsulta exampleDb2 ?d ''c2'' ?b))) ''c2'' = Some ?c'"
    by (simp add: findUnique_def)
  have ge: "findUnique (exames (fst (updateExame exampleDb ?a ''e1'' ?b'))) ''e1'' = Some ?e'"
    by code_simp
  from C9_update_frame[where s = exampleDb2 and b = ?b and req = ?d and i = "''c2''"] fc gc
  have sc: "sameBooking ?b exampleNewConsulta ?c'"
    by fastforce
  then have st: "status ?c' = status exampleNewConsulta"
    by simp
  from C9_update_frame[where s = exampleDb and b = ?b' and req = ?a and i = "''e1''"] fe ge
  have se: "sameBooking ?b' exampleExame ?e'"
    by fastforce
  from fc uc sc st ge se show ?thesis
    by blast
qed

section \<open>C7: registering a push token again\<close>

lemma findUnique_map_rows:
  "findUnique (map (\<lambda>(k, v). if P v then (k, f v) else (k, v)) t) i
     = map_option (\<lambda>v. if P v then f v else v) (findUnique t i)"
  unfolding findUnique_def by (induction t) auto

lemma findUnique_member: "findUnique t i = Some v \<Longrightarrow> (i, v) \<in> set t"
  unfolding findUnique_def by (rule map_of_SomeD)

lemma token_taken:
  assumes "(k, t0) \<in> set (pushTokens s)" "token t0 = tok"
  shows "\<exists>y. findFirst (\<lambda>(k, t). token t = tok) (pushTokens s) = Some y"
proof -
  have "(\<lambda>(k, t). token t = tok) (k, t0)"
    using assms by simp
  from findFirst_member[of "(k, t0)" "pushTokens s" "\<lambda>(k, t). token t = tok", OF assms(1) this]
  show ?thesis .
qed

lemma findFirst_holds: "findFirst P t = Some y \<Longrightarrow> P y"
  unfolding findFirst_def by (induction t) (auto split: if_splits)

text \<open>
  C7, as the code has it. When a row carries the token of a registration whose
  platform is one of \<open>ios\<close>, \<open>android\<close>, \<open>web\<close> and whose caller is a user of the store,
  the registration answers 200 and not an error, whoever owned the row before, the
  caller included: the row now belongs to the registering caller, on the platform of
  the request, and no row is added. A delete of that row by its owner of before, when
  that is another identity than the registering caller, then answers 403
  \<open>AUTH_FORBIDDEN\<close>.
\<close>

theorem C7_token_reassigned:
  assumes ex: "findUnique (pushTokens s) i = Some t0" "token t0 = tok"
      and tk: "b ''token'' = Some tok" "tok \<noteq> []"
      and pl: "b ''plataforma'' = Some p" "p \<in> set plataformasValidas"
      and usr: "findUnique (usuarios s) (userId req) = Some u"
  shows "\<exists>s' k t'. registerPushToken newId s req b = (s', Res 200 (k, t'))
           \<and> token t' = tok \<and> usuarioId t' = userId req \<and> plataforma t' = p
           \<and> findUnique (pushTokens s') i
               = Some (t0\<lparr>usuarioId := userId req, plataforma := p, tokenAtivo := True\<rparr>)
           \<and> map fst (pushTokens s') = map fst (pushTokens s)
           \<and> (userId prior = usuarioId t0 \<and> userId req \<noteq> usuarioId t0 \<longrightarrow>
                deletePushToken s' prior i = (s', Err 403 ''AUTH_FORBIDDEN''))"
proof -
  let ?data = "\<lambda>t. t\<lparr>usuarioId := userId req, plataforma := p, tokenAtivo := True\<rparr>"
  let ?rows = "map (\<lambda>(k', t). if token t = tok then (k', ?data t) else (k', t)) (pushTokens s)"
  let ?s' = "s\<lparr>pushTokens := ?rows\<rparr>"
  from token_taken[OF findUnique_member[OF ex(1)] ex(2)]
  obtain k t1 where ff: "findFirst (\<lambda>(k, t). token t = tok) (pushTokens s) = Some (k, t1)"
    by fastforce
  from findFirst_holds[OF ff] have t1: "token t1 = tok"
    by simp
  have v: "\<not> falsy (b ''token'')" "\<not> falsy (b ''plataforma'')"
      "strOf (b ''token'') = tok" "strOf (b ''plataforma'') = p"
    using tk pl by (auto simp: falsy_def strOf_def plataformasValidas_def)
  have reg: "registerPushToken newId s req b = (?s', Res 200 (k, ?data t1))"
    unfolding registerPushToken_def by (simp add: v pl(2) ff usr)
  have fu: "findUnique (pushTokens ?s') i = Some (?data t0)"
    using ex by (simp add: findUnique_map_rows)
  have ks: "map fst (pushTokens ?s') = map fst (pushTokens s)"
    by (induction "pushTokens s") (auto simp: case_prod_beta)
  have del: "userId prior = usuarioId t0 \<and> userId req \<noteq> usuarioId t0 \<longrightarrow>
               deletePushToken ?s' prior i = (?s', Err 403 ''AUTH_FORBIDDEN'')"
    unfolding deletePushToken_def fu by simp
  from reg t1 fu ks del show ?thesis
    by (intro exI[of _ ?s'] exI[of _ k] exI[of _ "?data t1"]) simp
qed

text \<open>
  The token of patient \<open>p1\<close> is registered again by patient \<open>p2\<close>, from an Android
  device; \<open>p1\<close> can no longer delete it. Registered again by \<open>p1\<close>, from an Android
  device, it stays the token of \<open>p1\<close> and the answer is 200 all the same.
\<close>

theorem C7_token_reassigned_witness:
  "findUnique (pushTokens exampleDb) ''t1''
      = Some \<lparr>usuarioId = ''p1'', token = ''tok-abc'', plataforma = ''ios'', tokenAtivo = True\<rparr>
   \<and> registerPushToken ''t2'' exampleDb (asCaller ''p2'' ''PACIENTE'')
        [''token'' \<mapsto> ''tok-abc'', ''plataforma'' \<mapsto> ''android'']
      = (exampleDb\<lparr>pushTokens :=
            [(''t1'', \<lparr>usuarioId = ''p2'', token = ''tok-abc'', plataforma = ''android'',
                       tokenAtivo = True\<rparr>)]\<rparr>,
         Res 200 (''t1'', \<lparr>usuarioId = ''p2'', token = ''tok-abc'', plataforma = ''android'',
                           tokenAtivo = True\<rparr>))
   \<and> deletePushToken
        (exampleDb\<lparr>pushTokens :=
            [(''t1'', \<lparr>usuarioId = ''p2'', token = ''tok-abc'', plataforma = ''android'',
                       tokenAtivo = True\<rparr>)]\<rparr>)
        (asCaller ''p1'' ''PACIENTE'') ''t1''
      = (exampleDb\<lparr>pushTokens :=
            [(''t1'', \<lparr>usuarioId = ''p2'', token = ''tok-abc'', plataforma = ''android'',
                       tokenAtivo = True\<rparr>)]\<rparr>,
         Err 403 ''AUTH_FORBIDDEN'')
   \<and> (\<exists>s' k t'. registerPushToken ''t2'' exampleDb (asCaller ''p1'' ''PACIENTE'')
                      [''token'' \<mapsto> ''tok-abc'', ''plataforma'' \<mapsto> ''android'']
                    = (s', Res 200 (k, t'))
                 \<and> usuarioId t' = ''p1'' \<and> plataforma t' = ''android'')"
proof -
  let ?t0 = "\<lparr>usuarioId = ''p1'', token = ''tok-abc'', plataforma = ''ios'', tokenAtivo = True\<rparr>"
  let ?t' = "\<lparr>usuarioId = ''p2'', token = ''tok-abc'', plataforma = ''android'', tokenAtivo = True\<rparr>"
  let ?s' = "exampleDb\<lparr>pushTokens := [(''t1'', ?t')]\<rparr>"
  let ?b = "[''token'' \<mapsto> ''tok-abc'', ''plataforma'' \<mapsto> ''android'']"
  let ?req = "asCaller ''p2'' ''PACIENTE''"
  let ?prior = "asCaller ''p1'' ''PACIENTE''"
  have ex: "findUnique (pushTokens exampleDb) ''t1'' = Some ?t0" "token ?t0 = ''tok-abc''"
    by code_simp+
  have tk: "?b ''token'' = Some ''tok-abc''" "''tok-abc'' \<noteq> []"
    by simp_all
  have pl: "?b ''plataforma'' = Some ''android''" "''android'' \<in> set plataformasValidas"
    by (simp_all add: plataformasValidas_def)
  have own: "userId ?prior = usuarioId ?t0 \<and> userId ?req \<noteq> usuarioId ?t0"
    by (simp add: asCaller_def)
  have usr: "findUnique (usuarios exampleDb) (userId ?req)
               = Some \<lparr>nome = ''Bruno'', email = ''bruno@clinic'', senhaHash = ''#brunobr1'',
                       perfil = ''PACIENTE'', ativo = True\<rparr>"
      "findUnique (usuarios exampleDb) (userId ?prior)
               = Some \<lparr>nome = ''Ana'', email = ''ana@clinic'', senhaHash = ''#anaana12'',
                       perfil = ''PACIENTE'', ativo = True\<rparr>"
    by code_simp+
  have reg: "registerPushToken ''t2'' exampleDb ?req ?b = (?s', Res 200 (''t1'', ?t'))"
    by code_simp
  from C7_token_reassigned[where b = ?b and newId = "''t2''" and prior = ?prior,
         OF ex tk pl usr(1)] own
  obtain s' k t' where "registerPushToken ''t2'' exampleDb ?req ?b = (s', Res 200 (k, t'))"
    and "deletePushToken s' ?prior ''t1'' = (s', Err 403 ''AUTH_FORBIDDEN'')"
    by blast
  with reg have del: "deletePushToken ?s' ?prior ''t1'' = (?s', Err 403 ''AUTH_FORBIDDEN'')"
    by simp
  from C7_token_reassigned[where b = ?b and newId = "''t2''" and req = ?prior,
         OF ex tk pl usr(2)]
  have again: "\<exists>s' k t'. registerPushToken ''t2'' exampleDb ?prior ?b = (s', Res 200 (k, t'))
                 \<and> usuarioId t' = ''p1'' \<and> plataforma t' = ''android''"
    by (auto simp: asCaller_def)
  from ex(1) reg del again show ?thesis
    by blast
qed

text \<open>
  C7 as it is worded fails in three places. A registration of a token that a row
  carries, with a platform outside the three, is answered 400 \<open>VALIDATION_ERROR\<close>
  and changes nothing. A registration by a caller whose identity no user has (the
  account behind a token that is still valid was removed) is refused by the store and
  answered 500. And when the owner of before registers the token again, they are the
  owner after it too, and their delete is answered 200.
\<close>

theorem C7_token_reassigned_counterexample:
  "findUnique (pushTokens exampleDb) ''t1''
      = Some \<lparr>usuarioId = ''p1'', token = ''tok-abc'', plataforma = ''ios'', tokenAtivo = True\<rparr>
   \<and> registerPushToken ''t2'' exampleDb (asCaller ''p2'' ''PACIENTE'')
        [''token'' \<mapsto> ''tok-abc'', ''plataforma'' \<mapsto> ''windows'']
      = (exampleDb, Err 400 ''VALIDATION_ERROR'')
   \<and> findUnique (usuarios exampleDb) ''u0'' = None
   \<and> registerPushToken ''t2'' exampleDb (asCaller ''u0'' ''PACIENTE'')
        [''token'' \<mapsto> ''tok-abc'', ''plataforma'' \<mapsto> ''android'']
      = (exampleDb, Err 500 ''INTERNAL_SERVER_ERROR'')
   \<and> registerPushToken ''t2'' exampleDb (asCaller ''p1'' ''PACIENTE'')
        [''token'' \<mapsto> ''tok-abc'', ''plataforma'' \<mapsto> ''android'']
      = (exampleDb\<lparr>pushTokens :=
            [(''t1'', \<lparr>usuarioId = ''p1'', token = ''tok-abc'', plataforma = ''android'',
                       tokenAtivo = True\<rparr>)]\<rparr>,
         Res 200 (''t1'', \<lparr>usuarioId = ''p1'', token = ''tok-abc'', plataforma = ''android'',
                           tokenAtivo = True\<rparr>))
   \<and> deletePushToken
        (exampleDb\<lparr>pushTokens :=
            [(''t1'', \<lparr>usuarioId = ''p1'', token = ''tok-abc'', plataforma = ''android'',
                       tokenAtivo = True\<rparr>)]\<rparr>)
        (asCaller ''p1'' ''PACIENTE'') ''t1''
      = (exampleDb\<lparr>pushTokens := []\<rparr>, Res 200 ())"
  by code_simp

section \<open>C8: a password shorter than eight characters\<close>

lemma register_short:
  assumes "b ''senha'' = Some pw" "length pw < 8"
  shows "register pf newId s b = (s, Err 400 ''VALIDATION_ERROR'')"
  unfolding register_def using assms by (simp add: strOf_def)

lemma updateUser_short:
  assumes "b ''senha'' = Some pw" "pw \<noteq> []" "length pw < 8"
      and "findUnique (usuarios s) i = Some u"
  shows "updateUser pf s i b ativoField = (s, Err 400 ''VALIDATION_ERROR'')"
  unfolding updateUser_def using assms by (simp add: strOf_def falsy_def)

text \<open>
  C8, as the code has it. A registration whose password has fewer than eight
  characters is answered 400 \<open>VALIDATION_ERROR\<close> and creates no account. An update of an
  existing account whose body carries a password of one to seven characters is answered
  400 \<open>VALIDATION_ERROR\<close> and changes no account.
\<close>

theorem C8_short_password:
  assumes "b ''senha'' = Some pw" "length pw < 8"
  shows "register pf newId s b = (s, Err 400 ''VALIDATION_ERROR'')
       \<and> (pw \<noteq> [] \<and> findUnique (usuarios s) i = Some u \<longrightarrow>
            updateUser pf s i b ativoField = (s, Err 400 ''VALIDATION_ERROR''))"
  using register_short[where b = b, OF assms] updateUser_short[where b = b, OF assms(1) _ assms(2)]
  by blast

text \<open>
  A registration and an update of the account \<open>p1\<close>, each with a password of seven
  characters.
\<close>

theorem C8_short_password_witness:
  "register examplePlatform ''u9'' exampleDb
     [''nome'' \<mapsto> ''Fabio'', ''email'' \<mapsto> ''fabio@clinic'', ''senha'' \<mapsto> ''abc1234'']
     = (exampleDb, Err 400 ''VALIDATION_ERROR'')
   \<and> updateUser examplePlatform exampleDb ''p1''
        [''nome'' \<mapsto> ''Ana Maria'', ''senha'' \<mapsto> ''abc1234''] (Some False)
     = (exampleDb, Err 400 ''VALIDATION_ERROR'')"
proof -
  let ?u = "\<lparr>nome = ''Ana'', email = ''ana@clinic'', senhaHash = ''#anaana12'',
               perfil = ''PACIENTE'', ativo = True\<rparr>"
  have f: "findUnique (usuarios exampleDb) ''p1'' = Some ?u"
    by code_simp
  let ?b1 = "[''nome'' \<mapsto> ''Fabio'', ''email'' \<mapsto> ''fabio@clinic'', ''senha'' \<mapsto> ''abc1234'']"
  let ?b2 = "[''nome'' \<mapsto> ''Ana Maria'', ''senha'' \<mapsto> ''abc1234'']"
  have r: "?b1 ''senha'' = Some ''abc1234''" "?b2 ''senha'' = Some ''abc1234''"
      "length ''abc1234'' < 8" "''abc1234'' \<noteq> []"
    by simp_all
  from C8_short_password[where b = ?b1 and pf = examplePlatform and newId = "''u9''"
         and s = exampleDb, OF r(1) r(3)]
       C8_short_password[where b = ?b2 and pf = examplePlatform and s = exampleDb
         and i = "''p1''" and u = ?u and ativoField = "Some False", OF r(2) r(3)] f r(4)
  show ?thesis by blast
qed

text \<open>
  C8 as it is worded fails for the update in two places. The account is looked up
  first: a short password for a key that no account has is answered 404
  \<open>RESOURCE_NOT_FOUND\<close>. And \<open>if (senha)\<close> takes the empty password for no password:
  the update is answered 200 and the other fields of the body are written.
\<close>

theorem C8_short_password_counterexample:
  "length ''abc'' < 8
   \<and> updateUser examplePlatform exampleDb ''u0'' [''senha'' \<mapsto> ''abc''] None
       = (exampleDb, Err 404 ''RESOURCE_NOT_FOUND'')
   \<and> snd (updateUser examplePlatform exampleDb ''p1''
             [''nome'' \<mapsto> ''Ana Maria'', ''senha'' \<mapsto> ''''] None)
       = Res 200 (''p1'', ''Ana Maria'', ''ana@clinic'', ''PACIENTE'', True)
   \<and> map_option nome
        (findUnique (usuarios (fst (updateUser examplePlatform exampleDb ''p1''
                                      [''nome'' \<mapsto> ''Ana Maria'', ''senha'' \<mapsto> ''''] None))) ''p1'')
       = Some ''Ana Maria''"
  by code_simp

section \<open>C2: who receives which row\<close>

text \<open>
  The row a list or a get-by-id answers with, for appointments, exams and exam results
  alike, passes the visibility rule: a patient receives rows of their own patient
  reference, a doctor rows of their own doctor reference.
\<close>

theorem visible_rows:
  "(listConsultas s req = (s', Res n vs) \<and> v \<in> set vs \<longrightarrow> mayAccess req (snd (fst v)))
   \<and> (getConsulta s req i = (s', Res n v) \<longrightarrow> mayAccess req (snd (fst v)))
   \<and> (listExames s req = (s', Res n ws) \<and> w \<in> set ws \<longrightarrow> mayAccess req (snd (fst w)))
   \<and> (getExame s req i = (s', Res n (w, rs)) \<longrightarrow> mayAccess req (snd (fst w)))
   \<and> (listResultados s req = (s', Res n xs) \<and> x \<in> set xs \<longrightarrow> mayAccess req (snd (fst x)))
   \<and> (getResultado s req i = (s', Res n x) \<longrightarrow> mayAccess req (snd (fst x)))"
proof (intro conjI impI)
  assume "listConsultas s req = (s', Res n vs) \<and> v \<in> set vs"
  then show "mayAccess req (snd (fst v))"
    unfolding listConsultas_def Let_def mayAccess_def
    by (auto simp: findMany_def includeUsers_def split: if_splits)
next
  assume "getConsulta s req i = (s', Res n v)"
  then show "mayAccess req (snd (fst v))"
    unfolding getConsulta_def mayAccess_def
    by (auto simp: includeUsers_def split: option.splits if_splits)
next
  assume "listExames s req = (s', Res n ws) \<and> w \<in> set ws"
  then show "mayAccess req (snd (fst w))"
    unfolding listExames_def Let_def mayAccess_def
    by (auto simp: findMany_def includeUsers_def split: if_splits)
next
  assume "getExame s req i = (s', Res n (w, rs))"
  then show "mayAccess req (snd (fst w))"
    unfolding getExame_def mayAccess_def
    by (auto simp: includeUsers_def split: option.splits if_splits)
next
  assume "listResultados s req = (s', Res n xs) \<and> x \<in> set xs"
  then show "mayAccess req (snd (fst x))"
    unfolding listResultados_def Let_def mayAccess_def
    by (auto simp: findMany_def includeResultado_def split: if_splits)
next
  assume "getResultado s req i = (s', Res n x)"
  then show "mayAccess req (snd (fst x))"
    unfolding getResultado_def mayAccess_def
    by (auto simp: includeResultado_def split: option.splits if_splits)
qed

text \<open>Patient \<open>p2\<close> lists the appointments of the clinic and receives their own.\<close>

theorem visible_rows_witness:
  "listConsultas exampleDb2 (asCaller ''p2'' ''PACIENTE'')
     = (exampleDb2, Res 200 [((''c2'', exampleNewConsulta),
                              Some (''p2'', ''Bruno'', ''bruno@clinic''),
                              Some (''d1'', ''Carla'', ''carla@clinic''))])
   \<and> mayAccess (asCaller ''p2'' ''PACIENTE'') exampleNewConsulta"
proof -
  let ?v = "((''c2'', exampleNewConsulta),
             Some (''p2'', ''Bruno'', ''bruno@clinic''), Some (''d1'', ''Carla'', ''carla@clinic''))"
  have l: "listConsultas exampleDb2 (asCaller ''p2'' ''PACIENTE'') = (exampleDb2, Res 200 [?v])"
    by code_simp
  from visible_rows[where s = exampleDb2 and req = "asCaller ''p2'' ''PACIENTE''"
         and s' = exampleDb2 and n = 200 and vs = "[?v]" and v = ?v] l
  have "mayAccess (asCaller ''p2'' ''PACIENTE'') (snd (fst ?v))"
    by simp
  with l show ?thesis
    by simp
qed

text \<open>
  C2 fails for the results that \<open>getExame\<close> attaches to an exam: they are selected by
  their exam reference alone. Doctor \<open>d2\<close> files a result for the exam \<open>e1\<close> of patient
  \<open>p1\<close> and doctor \<open>d1\<close> under the references of patient \<open>p2\<close> and of themself, which
  \<open>createResultado\<close> accepts. Fetching the exam, patient \<open>p1\<close> and doctor \<open>d1\<close> each
  receive that result row, whose patient and doctor are not them; fetching the result
  row itself is refused to both with 403.
\<close>

theorem C2_nested_result_leak:
  "createResultado 1704100000000 ''r1'' exampleDb (asCaller ''d2'' ''MEDICO'')
      [''exameId'' \<mapsto> ''e1'', ''pacienteId'' \<mapsto> ''p2'', ''medicoId'' \<mapsto> ''d2'',
       ''detalhes'' \<mapsto> ''laudo'']
     = (exampleDb3,
        Res 201 ((''r1'', exampleResultado),
                 Some (''e1'', ''Hemograma''),
                 Some (''p2'', ''Bruno'', ''bruno@clinic''),
                 Some (''d2'', ''Davi'')))
   \<and> getExame exampleDb3 (asCaller ''p1'' ''PACIENTE'') ''e1''
     = (exampleDb3,
        Res 200 (((''e1'', exampleExame),
                  Some (''p1'', ''Ana'', ''ana@clinic''),
                  Some (''d1'', ''Carla'', ''carla@clinic'')),
                 [(''r1'', exampleResultado)]))
   \<and> pacienteId exampleResultado \<noteq> userId (asCaller ''p1'' ''PACIENTE'')
   \<and> getResultado exampleDb3 (asCaller ''p1'' ''PACIENTE'') ''r1''
     = (exampleDb3, Err 403 ''AUTH_FORBIDDEN'')
   \<and> getExame exampleDb3 (asCaller ''d1'' ''MEDICO'') ''e1''
     = (exampleDb3,
        Res 200 (((''e1'', exampleExame),
                  Some (''p1'', ''Ana'', ''ana@clinic''),
                  Some (''d1'', ''Carla'', ''carla@clinic'')),
                 [(''r1'', exampleResultado)]))
   \<and> medicoId exampleResultado \<noteq> userId (asCaller ''d1'' ''MEDICO'')
   \<and> getResultado exampleDb3 (asCaller ''d1'' ''MEDICO'') ''r1''
     = (exampleDb3, Err 403 ''AUTH_FORBIDDEN'')"
  by code_simp

end
